theory Spec2Isabelle
  imports Main "HOL-Library.Sublist"
begin

section \<open>Python values, exceptions and dictionaries\<close>

text \<open>
  The values that occur in the parameter dictionary \<^verbatim>\<open>PARAMS\<close>, in the local variables
  of a task function and in keyword arguments. Python's unbounded integers are \<open>int\<close>,
  byte strings are \<open>string\<close>. Floats are left out: no property below depends on them.
\<close>

datatype pyval =
    PNone
  | PBool bool
  | PInt int
  | PStr string
  | PTuple "pyval list"
  | PList "pyval list"

text \<open>
  Exceptions are values; each constructor is a Python exception class and carries the
  exception's message (for a \<^verbatim>\<open>KeyError\<close> raised by a lookup: the missing key).
  \<open>OutsideModel\<close> is no Python exception: it is the result of the model where the
  program uses a feature of the Python library that is not modelled (it is named at each
  such place), so that the model never invents a behaviour there.
\<close>

datatype exn =
    KeyError string
  | ValueError string
  | TypeError string
  | IndexError string
  | AttributeError string
  | ImportError string
  | IOError string
  | OSError string
  | AssertionError
  | PipelineError string
  | ExternalError string
  | OutsideModel

type_synonym pydict = "string \<rightharpoonup> pyval"

text \<open>Truth value of a Python object, as \<^verbatim>\<open>if x:\<close>, \<^verbatim>\<open>not x\<close>, \<^verbatim>\<open>and\<close>, \<^verbatim>\<open>or\<close> test it.\<close>

fun truthy :: "pyval \<Rightarrow> bool" where
  "truthy PNone = False"
| "truthy (PBool b) = b"
| "truthy (PInt n) = (n \<noteq> 0)"
| "truthy (PStr s) = (s \<noteq> [])"
| "truthy (PTuple vs) = (vs \<noteq> [])"
| "truthy (PList vs) = (vs \<noteq> [])"

text \<open>\<^verbatim>\<open>type(v).__name__\<close>, as it appears in the messages of \<^verbatim>\<open>TypeError\<close>.\<close>

fun type_name :: "pyval \<Rightarrow> string" where
  "type_name PNone = ''NoneType''"
| "type_name (PBool b) = ''bool''"
| "type_name (PInt n) = ''int''"
| "type_name (PStr s) = ''str''"
| "type_name (PTuple vs) = ''tuple''"
| "type_name (PList vs) = ''list''"

section \<open>Parameter substitution\<close>

text \<open>
  \<^verbatim>\<open>k.startswith(outfile)\<close>: the argument is a string, or a tuple whose elements are
  tried from left to right and have to be strings; anything else raises \<^verbatim>\<open>TypeError\<close>.
\<close>

fun startswith_any :: "string \<Rightarrow> pyval list \<Rightarrow> exn + bool" where
  "startswith_any k [] = Inr False"
| "startswith_any k (t # ts) =
     (case t of
        PStr s \<Rightarrow> if prefix s k then Inr True else startswith_any k ts
      | _ \<Rightarrow> Inl (TypeError ''expected a character buffer object''))"

fun startswith :: "string \<Rightarrow> pyval \<Rightarrow> exn + bool" where
  "startswith k (PStr s) = Inr (prefix s k)"
| "startswith k (PTuple ts) = startswith_any k ts"
| "startswith k v =
     Inl (TypeError (''startswith first arg must be str, unicode, or tuple, not '' @ type_name v))"

text \<open>\<^verbatim>\<open>len(outfile)\<close>, reached only after \<^verbatim>\<open>startswith\<close> has accepted the value.\<close>

fun py_len :: "pyval \<Rightarrow> exn + nat" where
  "py_len (PStr s) = Inr (length s)"
| "py_len (PTuple vs) = Inr (length vs)"
| "py_len (PList vs) = Inr (length vs)"
| "py_len v = Inl (TypeError (''object of type '' @ type_name v @ '' has no len()''))"

definition task_specific_msg :: "string \<Rightarrow> string \<Rightarrow> string" where
  "task_specific_msg p k =
     ''task specific parameter '' @ [CHR 0x27] @ p @ [CHR 0x27] @
     '' does not exist for '' @ [CHR 0x27] @ k @ [CHR 0x27] @ '' ''"

text \<open>
  The loop \<^verbatim>\<open>for k in local_params.keys()\<close> of \<^verbatim>\<open>substituteParameters\<close>. The list of
  keys is a snapshot taken before the loop; the dictionary is updated while the loop runs.
\<close>

fun substitute_loop :: "pyval \<Rightarrow> string list \<Rightarrow> pydict \<Rightarrow> exn + pydict" where
  "substitute_loop outfile [] local_params = Inr local_params"
| "substitute_loop outfile (k # ks) local_params =
     (case startswith k outfile of
        Inl e \<Rightarrow> Inl e
      | Inr False \<Rightarrow> substitute_loop outfile ks local_params
      | Inr True \<Rightarrow>
          (case py_len outfile of
             Inl e \<Rightarrow> Inl e
           | Inr n \<Rightarrow>
               (let p = drop (n + 1) k in
                if local_params p = None then Inl (KeyError (task_specific_msg p k))
                else (case local_params k of
                        None \<Rightarrow> Inl (KeyError k)
                      | Some v \<Rightarrow> substitute_loop outfile ks (local_params(p \<mapsto> v))))))"

text \<open>
  \<^verbatim>\<open>substituteParameters(**kwargs)\<close>. The order in which a Python 2 dictionary lists
  its keys is not specified, so it is a parameter: \<open>keys d\<close> is the list
  \<^verbatim>\<open>d.keys()\<close>. The theorems assume of it only that it lists exactly the keys of the
  merged dictionary.
\<close>

definition substituteParameters ::
  "(pydict \<Rightarrow> string list) \<Rightarrow> pydict \<Rightarrow> pydict \<Rightarrow> exn + pydict" where
  "substituteParameters keys PARAMS kwargs =
     (let local_params = PARAMS ++ kwargs in
      case local_params ''outfile'' of
        None \<Rightarrow> Inr local_params
      | Some outfile \<Rightarrow> substitute_loop outfile (keys local_params) local_params)"

section \<open>Strings\<close>

text \<open>\<^verbatim>\<open>str(n)\<close> for an integer: decimal digits, with a minus sign when negative.\<close>

definition digit_char :: "nat \<Rightarrow> char" where
  "digit_char n = ''0123456789abcdef'' ! n"

fun show_nat :: "nat \<Rightarrow> string" where
  "show_nat n = (if n < 10 then [digit_char n] else show_nat (n div 10) @ [digit_char (n mod 10)])"

declare show_nat.simps [simp del]

definition show_int :: "int \<Rightarrow> string" where
  "show_int i = (if i < 0 then CHR ''-'' # show_nat (nat (- i)) else show_nat (nat i))"

text \<open>\<^verbatim>\<open>"%x" % n\<close> and \<^verbatim>\<open>"%02x" % n\<close> for a byte.\<close>

definition show_hex :: "nat \<Rightarrow> string" where
  "show_hex n = (if n < 16 then [digit_char n] else [digit_char (n div 16 mod 16), digit_char (n mod 16)])"

definition show_hex2 :: "nat \<Rightarrow> string" where
  "show_hex2 n = [digit_char (n div 16 mod 16), digit_char (n mod 16)]"

text \<open>
  \<^verbatim>\<open>repr(s)\<close> of a byte string in Python 2: single quotes, unless the string has a
  single quote and no double quote; the quote and the backslash are escaped, tab, newline
  and carriage return are written \<^verbatim>\<open>\t\<close>, \<^verbatim>\<open>\n\<close>, \<^verbatim>\<open>\r\<close>, other bytes outside
  the printable ASCII range as \<^verbatim>\<open>\xNN\<close>.
\<close>

definition repr_char :: "char \<Rightarrow> char \<Rightarrow> string" where
  "repr_char quote c =
     (if c = quote \<or> c = CHR 0x5C then [CHR 0x5C, c]
      else if c = CHR 0x09 then [CHR 0x5C, CHR ''t'']
      else if c = CHR 0x0A then [CHR 0x5C, CHR ''n'']
      else if c = CHR 0x0D then [CHR 0x5C, CHR ''r'']
      else if (of_char c :: nat) < 32 \<or> (of_char c :: nat) \<ge> 127
        then [CHR 0x5C, CHR ''x''] @ show_hex2 (of_char c)
      else [c])"

definition py_repr_str :: "string \<Rightarrow> string" where
  "py_repr_str s =
     (let quote = (if CHR 0x27 \<in> set s \<and> CHR 0x22 \<notin> set s then CHR 0x22 else CHR 0x27)
      in [quote] @ concat (map (repr_char quote) s) @ [quote])"

text \<open>
  \<^verbatim>\<open>str(v)\<close>, as the conversion \<^verbatim>\<open>%s\<close> applies it. The text of a list or a tuple
  is not modelled (\<open>None\<close>).
\<close>

fun py_str :: "pyval \<Rightarrow> string option" where
  "py_str PNone = Some ''None''"
| "py_str (PBool b) = Some (if b then ''True'' else ''False'')"
| "py_str (PInt n) = Some (show_int n)"
| "py_str (PStr s) = Some s"
| "py_str (PTuple vs) = None"
| "py_str (PList vs) = None"

text \<open>The whitespace of \<^verbatim>\<open>str.strip()\<close> and of \<^verbatim>\<open>\s\<close> in a regular expression.\<close>

definition isspace :: "char \<Rightarrow> bool" where
  "isspace c \<longleftrightarrow> c \<in> {CHR '' '', CHR 0x09, CHR 0x0A, CHR 0x0B, CHR 0x0C, CHR 0x0D}"

definition strip :: "string \<Rightarrow> string" where
  "strip s = rev (dropWhile isspace (rev (dropWhile isspace s)))"

text \<open>\<^verbatim>\<open>sep.join(xs)\<close>.\<close>

fun join :: "string \<Rightarrow> string list \<Rightarrow> string" where
  "join sep [] = []"
| "join sep [x] = x"
| "join sep (x # y # ys) = x @ sep @ join sep (y # ys)"

text \<open>\<^verbatim>\<open>re.sub("\t+", " ", s)\<close>: every maximal run of tabs becomes one space.\<close>

fun collapse_tabs_from :: "bool \<Rightarrow> string \<Rightarrow> string" where
  "collapse_tabs_from in_run [] = []"
| "collapse_tabs_from in_run (c # cs) =
     (if c = CHR 0x09
      then (if in_run then collapse_tabs_from True cs else CHR '' '' # collapse_tabs_from True cs)
      else c # collapse_tabs_from False cs)"

definition collapse_tabs :: "string \<Rightarrow> string" where
  "collapse_tabs s = collapse_tabs_from False s"

text \<open>\<^verbatim>\<open>" ".join(s.split("\n"))\<close>: every newline becomes a space.\<close>

definition join_lines :: "string \<Rightarrow> string" where
  "join_lines s = map (\<lambda>c. if c = CHR 0x0A then CHR '' '' else c) s"

text \<open>\<^verbatim>\<open>if s.endswith(";"): s = s[:-1]\<close>.\<close>

definition drop_semicolon :: "string \<Rightarrow> string" where
  "drop_semicolon s = (if s \<noteq> [] \<and> last s = CHR '';'' then butlast s else s)"

text \<open>
  \<^verbatim>\<open>re.sub(pat, repl, s)\<close> for a pattern without special characters (\<^verbatim>\<open>@IN@\<close>,
  \<^verbatim>\<open>@OUT@\<close>, \<^verbatim>\<open>[:]\<close> as the single character \<^verbatim>\<open>:\<close>): the occurrences are replaced
  from left to right, without overlap. \<open>skip\<close> counts the characters of a match that are
  still to be passed over. A replacement text with a backslash is subject to escape
  processing, which is not modelled.
\<close>

fun replace_from :: "string \<Rightarrow> string \<Rightarrow> nat \<Rightarrow> string \<Rightarrow> string" where
  "replace_from pat repl skip [] = []"
| "replace_from pat repl (Suc n) (c # cs) = replace_from pat repl n cs"
| "replace_from pat repl 0 (c # cs) =
     (if prefix pat (c # cs) then repl @ replace_from pat repl (length pat - 1) cs
      else c # replace_from pat repl 0 cs)"

definition re_sub_literal :: "string \<Rightarrow> string \<Rightarrow> string \<Rightarrow> exn + string" where
  "re_sub_literal pat repl s =
     (if CHR 0x5C \<in> set repl then Inl OutsideModel else Inr (replace_from pat repl 0 s))"

text \<open>\<^verbatim>\<open>sub in s\<close> for strings.\<close>

fun contains :: "string \<Rightarrow> string \<Rightarrow> bool" where
  "contains sub [] = (sub = [])"
| "contains sub (c # cs) = (prefix sub (c # cs) \<or> contains sub cs)"

section \<open>String formatting\<close>

text \<open>
  The operator \<^verbatim>\<open>fmt % args\<close> of Python 2 for a byte string \<open>fmt\<close>, where \<open>args\<close> is a
  dictionary (\<open>d = Some dict\<close>) or a single value that is no tuple (\<open>d = None\<close>). It
  follows the interpreter's loop over the format, character by character:
  \<^item> \<open>cur\<close> is the object the next conversion formats (\<open>None\<close>: the dictionary itself)
    and \<open>av\<close> tells whether it is still unused; a key \<^verbatim>\<open>%(key)\<close> looks the key up,
    raising \<^verbatim>\<open>KeyError\<close> at once when it is missing, and makes its value the current
    object;
  \<^item> \<open>i\<close> is the index of the character in the format, for the error message;
  \<^item> the conversions \<^verbatim>\<open>%s\<close>, \<^verbatim>\<open>%d\<close>, \<^verbatim>\<open>%i\<close>, \<^verbatim>\<open>%u\<close> and \<^verbatim>\<open>%%\<close> are
    modelled; flags, width, precision, length modifiers and the other conversions of
    Python give \<open>OutsideModel\<close>; any other character is Python's
    "unsupported format character".
\<close>

datatype fmode = Text | Percent | Key nat string | Conv

definition is_spec_char :: "char \<Rightarrow> bool" where
  "is_spec_char c \<longleftrightarrow> c \<in> set ''-+ #0123456789*.hlL''"

definition is_other_conversion :: "char \<Rightarrow> bool" where
  "is_other_conversion c \<longleftrightarrow> c \<in> set ''oxXeEfFgGcr''"

definition unsupported_msg :: "char \<Rightarrow> nat \<Rightarrow> string" where
  "unsupported_msg c i =
     ''unsupported format character '' @ [CHR 0x27, c, CHR 0x27] @ '' (0x'' @
     show_hex (of_char c) @ '') at index '' @ show_nat i"

text \<open>One conversion: the text it produces and whether the current object is still unused.\<close>

definition convert :: "pyval option \<Rightarrow> bool \<Rightarrow> nat \<Rightarrow> char \<Rightarrow> exn + (string \<times> bool)" where
  "convert cur av i c =
     (if is_spec_char c then Inl OutsideModel
      else if c = CHR ''%'' then Inr (''%'', av)
      else if \<not> av then Inl (TypeError ''not enough arguments for format string'')
      else if c = CHR ''s'' then
        (case cur of
           None \<Rightarrow> Inl OutsideModel
         | Some v \<Rightarrow> (case py_str v of None \<Rightarrow> Inl OutsideModel | Some s \<Rightarrow> Inr (s, False)))
      else if c = CHR ''d'' \<or> c = CHR ''i'' \<or> c = CHR ''u'' then
        (case cur of
           Some (PInt n) \<Rightarrow> Inr (show_int n, False)
         | Some (PBool b) \<Rightarrow> Inr (if b then ''1'' else ''0'', False)
         | Some v \<Rightarrow> Inl (TypeError (''%'' @ [if c = CHR ''i'' then CHR ''d'' else c] @
                        '' format: a number is required, not '' @ type_name v))
         | None \<Rightarrow> Inl (TypeError (''%'' @ [if c = CHR ''i'' then CHR ''d'' else c] @
                        '' format: a number is required, not dict'')))
      else if is_other_conversion c then Inl OutsideModel
      else Inl (ValueError (unsupported_msg c i)))"

text \<open>The text \<open>s\<close> put before the result of formatting the rest.\<close>

definition prepend :: "string \<Rightarrow> exn + string \<Rightarrow> exn + string" where
  "prepend s r = (case r of Inl e \<Rightarrow> Inl e | Inr t \<Rightarrow> Inr (s @ t))"

fun format_from :: "pydict option \<Rightarrow> fmode \<Rightarrow> pyval option \<Rightarrow> bool \<Rightarrow> nat \<Rightarrow> string \<Rightarrow> exn + string" where
  "format_from d Text cur av i [] =
     (if av \<and> d = None then Inl (TypeError ''not all arguments converted during string formatting'')
      else Inr [])"
| "format_from d Text cur av i (c # cs) =
     (if c = CHR ''%'' then format_from d Percent cur av (i + 1) cs
      else prepend [c] (format_from d Text cur av (i + 1) cs))"
| "format_from d Percent cur av i [] = Inl (ValueError ''incomplete format'')"
| "format_from d Percent cur av i (c # cs) =
     (if c = CHR ''(''
      then (case d of
              None \<Rightarrow> Inl (TypeError ''format requires a mapping'')
            | Some dict \<Rightarrow> format_from d (Key 1 []) cur av (i + 1) cs)
      else (case convert cur av i c of
              Inl e \<Rightarrow> Inl e
            | Inr (s, av') \<Rightarrow> prepend s (format_from d Text cur av' (i + 1) cs)))"
| "format_from d (Key n acc) cur av i [] = Inl (ValueError ''incomplete format key'')"
| "format_from d (Key n acc) cur av i (c # cs) =
     (if c = CHR '')'' \<and> n \<le> 1
      then (case d of
              None \<Rightarrow> Inl (TypeError ''format requires a mapping'')
            | Some dict \<Rightarrow>
                (case dict (rev acc) of
                   None \<Rightarrow> Inl (KeyError (rev acc))
                 | Some v \<Rightarrow> format_from d Conv (Some v) True (i + 1) cs))
      else if c = CHR '')'' then format_from d (Key (n - 1) (c # acc)) cur av (i + 1) cs
      else if c = CHR ''('' then format_from d (Key (n + 1) (c # acc)) cur av (i + 1) cs
      else format_from d (Key n (c # acc)) cur av (i + 1) cs)"
| "format_from d Conv cur av i [] = Inl (ValueError ''incomplete format'')"
| "format_from d Conv cur av i (c # cs) =
     (case convert cur av i c of
        Inl e \<Rightarrow> Inl e
      | Inr (s, av') \<Rightarrow> prepend s (format_from d Text cur av' (i + 1) cs))"

text \<open>\<^verbatim>\<open>fmt % dict\<close> and \<^verbatim>\<open>fmt % v\<close> for a single value \<open>v\<close> that is no tuple.\<close>

definition format_dict :: "string \<Rightarrow> pydict \<Rightarrow> exn + string" where
  "format_dict fmt dict = format_from (Some dict) Text None True 0 fmt"

definition format_value :: "string \<Rightarrow> pyval \<Rightarrow> exn + string" where
  "format_value fmt v = format_from None Text (Some v) True 0 fmt"

section \<open>Building statements\<close>

text \<open>
  \<^verbatim>\<open>buildStatement(**kwargs)\<close>. The \<^verbatim>\<open>KeyError\<close> of the interpolation is raised again
  with the text \<^verbatim>\<open>could not find <repr of the key> in dictionaries\<close>, its
  \<^verbatim>\<open>ValueError\<close> with the text of the error and the statement; a \<^verbatim>\<open>TypeError\<close> is not
  caught. A statement that is no string has no interpolation: \<^verbatim>\<open>%\<close> raises
  \<^verbatim>\<open>TypeError\<close>.
\<close>

definition could_not_find_msg :: "string \<Rightarrow> string" where
  "could_not_find_msg key =
     ''Error when creating command: could not find '' @ py_repr_str key @ '' in dictionaries''"

definition clean_statement :: "string \<Rightarrow> string" where
  "clean_statement s = drop_semicolon (strip (join_lines (collapse_tabs s)))"

definition buildStatement :: "(pydict \<Rightarrow> string list) \<Rightarrow> pydict \<Rightarrow> pydict \<Rightarrow> exn + string" where
  "buildStatement keys PARAMS kwargs =
     (case kwargs ''statement'' of
        None \<Rightarrow> Inl (ValueError ([CHR 0x27] @ ''statement'' @ [CHR 0x27] @ '' not defined''))
      | Some template \<Rightarrow>
          (case substituteParameters keys PARAMS kwargs of
             Inl e \<Rightarrow> Inl e
           | Inr local_params \<Rightarrow>
               (case template of
                  PStr t \<Rightarrow>
                    (case format_dict t local_params of
                       Inl (KeyError key) \<Rightarrow> Inl (KeyError (could_not_find_msg key))
                     | Inl (ValueError msg) \<Rightarrow>
                         Inl (ValueError (''Error when creating command: '' @ msg @
                                '', statement = '' @ t))
                     | Inl e \<Rightarrow> Inl e
                     | Inr statement \<Rightarrow> Inr (clean_statement statement))
                | v \<Rightarrow> Inl (TypeError (''unsupported operand type(s) for %: '' @ [CHR 0x27] @
                            type_name v @ [CHR 0x27] @ '' and '' @ [CHR 0x27] @ ''dict'' @
                            [CHR 0x27])))))"

text \<open>
  The shell functions \<^verbatim>\<open>_exec_prefix\<close> put before a statement and the call
  \<^verbatim>\<open>_exec_suffix\<close> put after it.
\<close>

definition exec_prefix :: string where
  "exec_prefix = concat (map (\<lambda>l. l @ [CHR 0x0A])
     [''detect_pipe_error_helper()'',
      ''    {'',
      ''    while [ '' @ [CHR 0x22] @ ''$#'' @ [CHR 0x22] @ '' != 0 ] ; do'',
      ''        # there was an error in at least one program of the pipe'',
      ''        if [ '' @ [CHR 0x22] @ ''$1'' @ [CHR 0x22] @ '' != 0 ] ; then return 1 ; fi'',
      ''        shift 1'',
      ''    done'',
      ''    return 0'',
      ''    }'',
      ''    detect_pipe_error() {'',
      ''    detect_pipe_error_helper '' @ [CHR 0x22] @ ''${PIPESTATUS[@]}'' @ [CHR 0x22],
      ''    return $?'',
      ''    }'',
      ''    checkpoint() {'',
      ''        detect_pipe_error;'',
      ''        if [ $? != 0 ]; then exit 1; fi;'',
      ''    }'']) @ ''    ''"

definition exec_suffix :: string where
  "exec_suffix = ''; detect_pipe_error''"

definition expandStatement :: "string \<Rightarrow> bool \<Rightarrow> string" where
  "expandStatement statement ignore_pipe_errors =
     (if ignore_pipe_errors then statement
      else join '' '' [exec_prefix, statement, exec_suffix])"

text \<open>
  \<^verbatim>\<open>joinStatements(statements, infile)\<close>. \<open>tmp\<close> is the name that
  \<^verbatim>\<open>getTempFilename()\<close> returns; \<open>x\<close> is the index of \<^verbatim>\<open>enumerate\<close>.
\<close>

fun join_steps :: "string \<Rightarrow> string \<Rightarrow> nat \<Rightarrow> string list \<Rightarrow> exn + string list" where
  "join_steps pattern infile x [] = Inr []"
| "join_steps pattern infile x (statement # rest) =
     (case (if x = 0 then re_sub_literal ''@IN@'' infile statement
            else (case format_value pattern (PInt (int x)) of
                    Inl e \<Rightarrow> Inl e
                  | Inr name \<Rightarrow> re_sub_literal ''@IN@'' name statement)) of
        Inl e \<Rightarrow> Inl e
      | Inr s \<Rightarrow>
          (case format_value pattern (PInt (int x + 1)) of
             Inl e \<Rightarrow> Inl e
           | Inr name \<Rightarrow>
               (case re_sub_literal ''@OUT@'' name s of
                  Inl e \<Rightarrow> Inl e
                | Inr s' \<Rightarrow>
                    (case join_steps pattern infile (x + 1) rest of
                       Inl e \<Rightarrow> Inl e
                     | Inr result \<Rightarrow> Inr (drop_semicolon (strip s') # result)))))"

definition joinStatements :: "string \<Rightarrow> string list \<Rightarrow> string \<Rightarrow> exn + string" where
  "joinStatements tmp statements infile =
     (let prefix = tmp; pattern = prefix @ ''_%i'' in
      case join_steps pattern infile 0 statements of
        Inl e \<Rightarrow> Inl e
      | Inr result \<Rightarrow>
          if prefix = [] then Inl AssertionError
          else Inr (join ''; checkpoint ; '' (result @ [''rm -f '' @ prefix @ ''*''])))"

section \<open>The environment of a call of \<^verbatim>\<open>run\<close>\<close>

text \<open>
  What \<^verbatim>\<open>run\<close> does to the outside is a list of events, in the order in which they
  happen; what the outside answers is read from the environment. Job identifiers are
  opaque to the program: \<open>Job k\<close> is the job that the \<open>k\<close>-th call of \<^verbatim>\<open>runJob\<close>
  started, \<open>Task i\<close> the task with index \<open>i\<close> of an array job.
\<close>

datatype session = Session

datatype job_id = Job nat | Task int

datatype wait_outcome = Exited int | WaitError string

datatype event =
    Warn string
  | CreateJobTemplate
  | NativeSpecification string
  | CreateTempFile string
  | WriteJobScript string string int string
  | RunJob string
  | RunBulkJobs string int int int
  | Synchronize "job_id list" bool
  | Wait job_id
  | GetStdoutStderr string string
  | Unlink string
  | DeleteJobTemplate
  | Popen string

text \<open>
  \<^item> \<open>global_PARAMS\<close>, \<open>caller_locals\<close>, \<open>call_kwargs\<close>: the dictionary \<^verbatim>\<open>PARAMS\<close>, the
    local variables of the calling function and the keyword arguments of the call;
  \<^item> \<open>GLOBAL_SESSION\<close>: the scheduler session, \<open>None\<close> when there is none;
  \<^item> \<open>dict_keys\<close>: the order in which a dictionary lists its keys;
  \<^item> \<open>temp_file k\<close>: the absolute name of the \<open>k\<close>-th file that
    \<^verbatim>\<open>getTempFile(dir=WORKING_DIRECTORY)\<close> creates in this call;
  \<^item> \<open>human2bytes\<close>: \<^verbatim>\<open>IOTools.human2bytes\<close> of the CGAT library, which is not part of
    the sources: the number of bytes, or the exception it raises;
  \<^item> \<open>wait_result\<close>: what \<^verbatim>\<open>session.wait\<close> returns for a job (its exit status) or the
    message of the exception it raises;
  \<^item> \<open>stderr_text\<close>: the content of a job's stderr file as \<^verbatim>\<open>getStdoutStderr\<close> reads it;
  \<^item> \<open>job_file_present\<close>: whether the job script still exists when it is unlinked;
  \<^item> \<open>SHELL\<close>: the environment variable; \<open>returncode k\<close> and \<open>process_stderr k\<close>: the
    return code and the stderr of the \<open>k\<close>-th local process.
\<close>

record env =
  global_PARAMS :: pydict
  caller_locals :: pydict
  call_kwargs :: pydict
  GLOBAL_SESSION :: "session option"
  dict_keys :: "pydict \<Rightarrow> string list"
  temp_file :: "nat \<Rightarrow> string"
  human2bytes :: "pyval \<Rightarrow> exn + int"
  wait_result :: "job_id \<Rightarrow> wait_outcome"
  stderr_text :: "string \<Rightarrow> string"
  job_file_present :: "string \<Rightarrow> bool"
  SHELL :: "string option"
  returncode :: "nat \<Rightarrow> int"
  process_stderr :: "nat \<Rightarrow> string"

text \<open>
  An action yields the events it caused and either an exception or a value. \<open>seq\<close> runs
  a second action after a first one that returned; an exception ends the sequence.
\<close>

type_synonym 'a action = "event list \<times> (exn + 'a)"

definition ret :: "'a \<Rightarrow> 'a action" where
  "ret x = ([], Inr x)"

definition raise :: "exn \<Rightarrow> 'a action" where
  "raise ex = ([], Inl ex)"

definition emit :: "event \<Rightarrow> unit action" where
  "emit ev = ([ev], Inr ())"

definition lift :: "exn + 'a \<Rightarrow> 'a action" where
  "lift r = ([], r)"

definition seq :: "'a action \<Rightarrow> ('a \<Rightarrow> 'b action) \<Rightarrow> 'b action" where
  "seq m f =
     (case m of
        (evs, Inl ex) \<Rightarrow> (evs, Inl ex)
      | (evs, Inr x) \<Rightarrow> (case f x of (evs', r) \<Rightarrow> (evs @ evs', r)))"

text \<open>\<^verbatim>\<open>d.get(k, default)\<close>.\<close>

definition py_get :: "pydict \<Rightarrow> string \<Rightarrow> pyval \<Rightarrow> pyval" where
  "py_get d k dflt = (case d k of Some v \<Rightarrow> v | None \<Rightarrow> dflt)"

section \<open>Options and resources of a call\<close>

text \<open>\<^verbatim>\<open>options = dict(PARAMS.items())\<close>, updated with the caller's locals, then with the keyword arguments.\<close>

definition merged_options :: "env \<Rightarrow> pydict" where
  "merged_options e = global_PARAMS e ++ caller_locals e ++ call_kwargs e"

text \<open>
  The legacy synonyms. The default of \<^verbatim>\<open>options.get\<close> is evaluated before the call, so
  a missing \<^verbatim>\<open>cluster_options\<close> or \<^verbatim>\<open>cluster_queue\<close> raises \<^verbatim>\<open>KeyError\<close>.
\<close>

definition legacy_synonyms :: "pydict \<Rightarrow> exn + pydict" where
  "legacy_synonyms options =
     (case options ''cluster_options'' of
        None \<Rightarrow> Inl (KeyError ''cluster_options'')
      | Some co \<Rightarrow>
          (let options1 = options(''cluster_options'' \<mapsto> py_get options ''job_options'' co) in
           case options1 ''cluster_queue'' of
             None \<Rightarrow> Inl (KeyError ''cluster_queue'')
           | Some cq \<Rightarrow>
               (let options2 = options1(''cluster_queue'' \<mapsto> py_get options1 ''job_queue'' cq) in
                Inr (options2(''without_cluster'' \<mapsto> py_get options2 ''without_cluster'' PNone)))))"

text \<open>\<^verbatim>\<open>"mem_free" in v\<close>: a substring of a string, an element of a list or tuple.\<close>

fun py_in :: "string \<Rightarrow> pyval \<Rightarrow> exn + bool" where
  "py_in sub (PStr s) = Inr (contains sub s)"
| "py_in sub (PList vs) = Inr (PStr sub \<in> set vs)"
| "py_in sub (PTuple vs) = Inr (PStr sub \<in> set vs)"
| "py_in sub v = Inl (TypeError (''argument of type '' @ [CHR 0x27] @ type_name v @ [CHR 0x27] @
                         '' is not iterable''))"

text \<open>
  \<^verbatim>\<open>re.search("-l\s*mem_free\s*=\s*(\S+)", o)\<close>: \<open>match_mem_free\<close> matches at the start
  of the text and gives the group, \<open>search_mem_free\<close> tries the positions from left to
  right. Every \<^verbatim>\<open>\s*\<close> is followed by something that is no whitespace, so the match at a
  position is unique.
\<close>

definition match_mem_free :: "string \<Rightarrow> string option" where
  "match_mem_free s =
     (if prefix ''-l'' s then
        (let r1 = dropWhile isspace (drop 2 s) in
         if prefix ''mem_free'' r1 then
           (case dropWhile isspace (drop 8 r1) of
              [] \<Rightarrow> None
            | c # r3 \<Rightarrow>
                if c = CHR ''='' then
                  (let g = takeWhile (\<lambda>c. \<not> isspace c) (dropWhile isspace r3) in
                   if g = [] then None else Some g)
                else None)
         else None)
      else None)"

fun search_mem_free :: "string \<Rightarrow> string option" where
  "search_mem_free [] = None"
| "search_mem_free (c # cs) =
     (case match_mem_free (c # cs) of Some g \<Rightarrow> Some g | None \<Rightarrow> search_mem_free cs)"

text \<open>
  \<^verbatim>\<open>re.sub("-l\S*mem_free\s*=\s(\S+)", "", o)\<close>. After \<^verbatim>\<open>-l\<close> the greedy \<^verbatim>\<open>\S*\<close> takes
  \<open>j\<close> characters that are no whitespace, the largest \<open>j\<close> first, such that the rest
  matches: \<^verbatim>\<open>mem_free\<close>, whitespace, \<^verbatim>\<open>=\<close>, exactly one whitespace character and at
  least one character that is none. \<open>legacy_tail\<close> gives the length of that rest,
  \<open>match_legacy\<close> the length of the whole match; \<open>remove_legacy\<close> deletes the matches
  from left to right (\<open>skip\<close> counts the characters of a match still to be deleted).
\<close>

definition legacy_tail :: "string \<Rightarrow> nat option" where
  "legacy_tail t =
     (if prefix ''mem_free'' t then
        (let ws = takeWhile isspace (drop 8 t) in
         case drop (8 + length ws) t of
           c # w # r \<Rightarrow>
             (let g = takeWhile (\<lambda>c. \<not> isspace c) r in
              if c = CHR ''='' \<and> isspace w \<and> g \<noteq> [] then Some (8 + length ws + 2 + length g)
              else None)
         | _ \<Rightarrow> None)
      else None)"

definition match_legacy :: "string \<Rightarrow> nat option" where
  "match_legacy s =
     (if prefix ''-l'' s then
        (let r = drop 2 s; n = length (takeWhile (\<lambda>c. \<not> isspace c) r) in
         case List.find (\<lambda>j. legacy_tail (drop j r) \<noteq> None) (rev [0..<Suc n]) of
           None \<Rightarrow> None
         | Some j \<Rightarrow> map_option (\<lambda>m. 2 + j + m) (legacy_tail (drop j r)))
      else None)"

fun remove_legacy :: "nat \<Rightarrow> string \<Rightarrow> string" where
  "remove_legacy skip [] = []"
| "remove_legacy (Suc n) (c # cs) = remove_legacy n cs"
| "remove_legacy 0 (c # cs) =
     (case match_legacy (c # cs) of
        Some m \<Rightarrow> remove_legacy (m - 1) cs
      | None \<Rightarrow> c # remove_legacy 0 cs)"

definition deprecation_warning :: string where
  "deprecation_warning =
     ''use of mem_free in job options is deprecated, please set job_memory local var instead''"

text \<open>
  The memory of the job, lines 1786 to 1809 of \<^verbatim>\<open>run\<close>: the value and the options, in
  which the legacy branch rewrites \<^verbatim>\<open>cluster_options\<close>.
\<close>

definition resolve_job_memory :: "pydict \<Rightarrow> pydict \<Rightarrow> (pyval \<times> pydict) action" where
  "resolve_job_memory PARAMS options =
     (case options ''job_memory'' of
        Some m \<Rightarrow> ret (m, options)
      | None \<Rightarrow>
          (case options ''cluster_options'' of
             None \<Rightarrow> raise (KeyError ''cluster_options'')
           | Some copts \<Rightarrow>
               (case py_in ''mem_free'' copts of
                  Inl ex \<Rightarrow> raise ex
                | Inr marker \<Rightarrow>
                    if marker \<and> truthy (py_get PARAMS ''cluster_memory_resource'' (PBool False))
                    then seq (emit (Warn deprecation_warning)) (\<lambda>_.
                      case copts of
                        PStr s \<Rightarrow>
                          (case search_mem_free s of
                             None \<Rightarrow> raise (ValueError (''expecting mem_free in '' @ [CHR 0x27] @ s @
                                               [CHR 0x27]))
                           | Some g \<Rightarrow>
                               ret (PStr g, options(''cluster_options'' \<mapsto> PStr (remove_legacy 0 s))))
                      | _ \<Rightarrow> raise (TypeError ''expected string or buffer''))
                    else ret (py_get PARAMS ''cluster_memory_default'' (PStr ''2G''), options))))"

text \<open>
  The value of \<^verbatim>\<open>run_on_cluster\<close>, lines 1858 to 1861. \<^verbatim>\<open>and\<close> and \<^verbatim>\<open>or\<close> return one
  of their operands and evaluate the second only when the first does not decide.
\<close>

definition run_on_cluster :: "pydict \<Rightarrow> session option \<Rightarrow> exn + pyval" where
  "run_on_cluster options global_session =
     (let a = (if options ''to_cluster'' = None then PBool True
               else py_get options ''to_cluster'' PNone) in
      if \<not> truthy a then Inr a
      else (case options ''without_cluster'' of
              None \<Rightarrow> Inl (KeyError ''without_cluster'')
            | Some wc \<Rightarrow>
                if truthy wc then Inr (PBool False)
                else Inr (PBool (global_session \<noteq> None))))"

text \<open>
  The job name:
  \<^verbatim>\<open>re.sub("[:]", "_", os.path.basename(options.get("outfile", "ruffus")))\<close>.
\<close>

definition basename :: "string \<Rightarrow> string" where
  "basename p = rev (takeWhile (\<lambda>c. c \<noteq> CHR ''/'') (rev p))"

definition job_name_of :: "pydict \<Rightarrow> exn + string" where
  "job_name_of options =
     (case py_get options ''outfile'' (PStr ''ruffus'') of
        PStr p \<Rightarrow> Inr (map (\<lambda>c. if c = CHR '':'' then CHR ''_'' else c) (basename p))
      | v \<Rightarrow> Inl (AttributeError ([CHR 0x27] @ type_name v @ [CHR 0x27] @
                    '' object has no attribute '' @ [CHR 0x27] @ ''rfind'' @ [CHR 0x27])))"

section \<open>Job templates, job scripts and the collection of jobs\<close>

definition is_letter :: "char \<Rightarrow> bool" where
  "is_letter c \<longleftrightarrow>
     c \<in> set ''abcdefghijklmnopqrstuvwxyz'' \<or> c \<in> set ''ABCDEFGHIJKLMNOPQRSTUVWXYZ''"

text \<open>
  \<^verbatim>\<open>setupJob\<close>: the template is created first; the native specification is the list
  \<open>spec\<close> joined by spaces and interpolated with the options, so a missing option and
  a name with a \<^verbatim>\<open>%\<close> raise here. The text of a memory amount or resource name that
  is a list or a tuple is not modelled.
\<close>

definition setupJob :: "pydict \<Rightarrow> pydict \<Rightarrow> pyval \<Rightarrow> string \<Rightarrow> unit action" where
  "setupJob PARAMS options job_memory job_name =
     seq (emit CreateJobTemplate) (\<lambda>_.
       case job_name of
         [] \<Rightarrow> raise (IndexError ''string index out of range'')
       | c # _ \<Rightarrow>
           (let name = (if is_letter c then job_name else CHR ''_'' # job_name) in
            case PARAMS ''cluster_memory_resource'' of
              None \<Rightarrow> raise (KeyError ''cluster_memory_resource'')
            | Some resource \<Rightarrow>
                (case (py_str resource, py_str job_memory) of
                   (Some r, Some m) \<Rightarrow>
                     (let spec = [''-V'', ''-q %(cluster_queue)s'', ''-p %(cluster_priority)i'',
                                  ''-N '' @ name, ''%(cluster_options)s'',
                                  ''-l '' @ r @ ''='' @ m] @
                                 (if options ''job_threads'' \<noteq> None
                                  then [''-pe %(cluster_parallel_environment)s %(job_threads)i -R y'']
                                  else [])
                      in case format_dict (join '' '' spec) options of
                           Inl ex \<Rightarrow> raise ex
                         | Inr native \<Rightarrow> emit (NativeSpecification native))
                 | _ \<Rightarrow> raise OutsideModel)))"

text \<open>
  \<^verbatim>\<open>buildJobScript\<close>: the temporary file is created, then written. The event records
  what the text of the script is made of: the job name, the limit of \<^verbatim>\<open>ulimit -v\<close> and
  the expanded statement. The paths for stdout and stderr are returned with the path of
  the script.
\<close>

definition buildJobScript ::
  "env \<Rightarrow> nat \<Rightarrow> bool \<Rightarrow> string \<Rightarrow> pyval \<Rightarrow> string \<Rightarrow> (string \<times> string \<times> string) action" where
  "buildJobScript e k ignore_pipe_errors statement job_memory job_name =
     (let job_path = temp_file e k in
      seq (emit (CreateTempFile job_path)) (\<lambda>_.
        case human2bytes e job_memory of
          Inl ex \<Rightarrow> raise ex
        | Inr bytes \<Rightarrow>
            seq (emit (WriteJobScript job_path job_name bytes
                         (expandStatement statement ignore_pipe_errors))) (\<lambda>_.
              ret (job_path, job_path @ ''.stdout'', job_path @ ''.stderr''))))"

definition pipeline_error_msg :: "int \<Rightarrow> string \<Rightarrow> string \<Rightarrow> string" where
  "pipeline_error_msg code err statement =
     replicate 39 CHR ''-'' @ [CHR 0x0A] @
     ''Child was terminated by signal '' @ show_int code @ '': '' @ [CHR 0x0A] @
     ''The stderr was: '' @ [CHR 0x0A] @ err @ [CHR 0x0A] @ statement @ [CHR 0x0A] @
     replicate 41 CHR ''-''"

text \<open>
  \<^verbatim>\<open>_collectSingleJobFromCluster\<close>: wait for the job (an exception whose message starts
  with \<^verbatim>\<open>code 24\<close> counts as no result, any other is raised again), read stdout and
  stderr, raise \<^verbatim>\<open>PipelineError\<close> for an exit status that is not 0 unless errors are
  ignored, and only then unlink the job script.
\<close>

definition collectSingleJobFromCluster ::
  "env \<Rightarrow> job_id \<Rightarrow> string \<Rightarrow> string \<Rightarrow> string \<Rightarrow> string \<Rightarrow> bool \<Rightarrow> unit action" where
  "collectSingleJobFromCluster e job statement stdout_path stderr_path job_path ignore_errors =
     seq (emit (Wait job)) (\<lambda>_.
       case (case wait_result e job of
               Exited n \<Rightarrow> Inr (Some n)
             | WaitError msg \<Rightarrow> if prefix ''code 24'' msg then Inr None
                                else Inl (ExternalError msg)) of
         Inl ex \<Rightarrow> raise ex
       | Inr retval \<Rightarrow>
           seq (emit (GetStdoutStderr stdout_path stderr_path)) (\<lambda>_.
             case retval of
               Some n \<Rightarrow>
                 if n \<noteq> 0 \<and> \<not> ignore_errors
                 then raise (PipelineError (pipeline_error_msg n (stderr_text e stderr_path) statement))
                 else if job_file_present e job_path then emit (Unlink job_path)
                 else emit (Warn (''temporary job file '' @ job_path @
                                    '' not present for clean-up - ignored''))
             | None \<Rightarrow>
                 if job_file_present e job_path then emit (Unlink job_path)
                 else emit (Warn (''temporary job file '' @ job_path @
                                    '' not present for clean-up - ignored''))))"

section \<open>Statements of a call\<close>

text \<open>\<^verbatim>\<open>for statement in v\<close>: the elements of a list or tuple, the characters of a string.\<close>

fun py_iter :: "pyval \<Rightarrow> exn + pyval list" where
  "py_iter (PList vs) = Inr vs"
| "py_iter (PTuple vs) = Inr vs"
| "py_iter (PStr s) = Inr (map (\<lambda>c. PStr [c]) s)"
| "py_iter v = Inl (TypeError ([CHR 0x27] @ type_name v @ [CHR 0x27] @ '' object is not iterable''))"

text \<open>
  The loop \<^verbatim>\<open>options["statement"] = statement; statement_list.append(buildStatement(**options))\<close>;
  the options, with the last statement stored in them, are returned with the list.
\<close>

fun build_statements ::
  "(pydict \<Rightarrow> string list) \<Rightarrow> pydict \<Rightarrow> pydict \<Rightarrow> pyval list \<Rightarrow> exn + (string list \<times> pydict)" where
  "build_statements keys PARAMS options [] = Inr ([], options)"
| "build_statements keys PARAMS options (st # sts) =
     (let options' = options(''statement'' \<mapsto> st) in
      case buildStatement keys PARAMS options' of
        Inl ex \<Rightarrow> Inl ex
      | Inr s \<Rightarrow>
          (case build_statements keys PARAMS options' sts of
             Inl ex \<Rightarrow> Inl ex
           | Inr (ss, options'') \<Rightarrow> Inr (s # ss, options'')))"

text \<open>
  The statements that a call builds: those of \<^verbatim>\<open>statements\<close> when this option is
  true, else the single \<^verbatim>\<open>statement\<close>.
\<close>

definition build_statement_list ::
  "(pydict \<Rightarrow> string list) \<Rightarrow> pydict \<Rightarrow> pydict \<Rightarrow> exn + (string list \<times> pydict)" where
  "build_statement_list keys PARAMS options =
     (if truthy (py_get options ''statements'' PNone)
      then (case py_iter (py_get options ''statements'' PNone) of
              Inl ex \<Rightarrow> Inl ex
            | Inr sts \<Rightarrow> build_statements keys PARAMS options sts)
      else (case buildStatement keys PARAMS options of
              Inl ex \<Rightarrow> Inl ex
            | Inr s \<Rightarrow> Inr ([s], options)))"

section \<open>Dispatch to the cluster\<close>

text \<open>The loop that writes a job script for each statement and submits it.\<close>

fun submit_jobs ::
  "env \<Rightarrow> bool \<Rightarrow> pyval \<Rightarrow> string \<Rightarrow> nat \<Rightarrow> string list \<Rightarrow>
   (job_id \<times> string \<times> string \<times> string \<times> string) list action" where
  "submit_jobs e ignore_pipe_errors job_memory job_name k [] = ret []"
| "submit_jobs e ignore_pipe_errors job_memory job_name k (statement # rest) =
     seq (buildJobScript e k ignore_pipe_errors statement job_memory job_name)
       (\<lambda>(job_path, stdout_path, stderr_path).
          seq (emit (RunJob job_path)) (\<lambda>_.
            seq (submit_jobs e ignore_pipe_errors job_memory job_name (k + 1) rest) (\<lambda>jobs.
              ret ((Job k, statement, job_path, stdout_path, stderr_path) # jobs))))"

text \<open>The loop "collect and clean up" over the jobs, in the order of submission.\<close>

fun collect_jobs ::
  "env \<Rightarrow> bool \<Rightarrow> (job_id \<times> string \<times> string \<times> string \<times> string) list \<Rightarrow> unit action" where
  "collect_jobs e ignore_errors [] = ret ()"
| "collect_jobs e ignore_errors ((job, statement, job_path, stdout_path, stderr_path) # rest) =
     seq (collectSingleJobFromCluster e job statement stdout_path stderr_path job_path ignore_errors)
       (\<lambda>_. collect_jobs e ignore_errors rest)"

text \<open>The branch \<^verbatim>\<open>if options.get("statements")\<close> of the cluster path.\<close>

definition run_cluster_batch ::
  "env \<Rightarrow> pydict \<Rightarrow> pyval \<Rightarrow> string \<Rightarrow> bool \<Rightarrow> bool \<Rightarrow> unit action" where
  "run_cluster_batch e options job_memory job_name ignore_pipe_errors ignore_errors =
     (case py_iter (py_get options ''statements'' PNone) of
        Inl ex \<Rightarrow> raise ex
      | Inr sts \<Rightarrow>
          (case build_statements (dict_keys e) (global_PARAMS e) options sts of
             Inl ex \<Rightarrow> raise ex
           | Inr (statement_list, options') \<Rightarrow>
               if truthy (py_get options' ''dryrun'' (PBool False)) then ret ()
               else
                 seq (setupJob (global_PARAMS e) options' job_memory job_name) (\<lambda>_.
                 seq (submit_jobs e ignore_pipe_errors job_memory job_name 0 statement_list) (\<lambda>jobs.
                 seq (emit (Synchronize (map fst jobs) False)) (\<lambda>_.
                 seq (collect_jobs e ignore_errors jobs) (\<lambda>_.
                 emit DeleteJobTemplate))))))"

text \<open>
  \<^verbatim>\<open>start, end, increment = options.get("job_array")\<close> and the numbers that the
  debugging message formats with \<^verbatim>\<open>%i\<close>.
\<close>

definition unpack_error :: "nat \<Rightarrow> exn" where
  "unpack_error n =
     (if n > 3 then ValueError ''too many values to unpack''
      else ValueError (''need more than '' @ show_nat n @
             (if n = 1 then '' value to unpack'' else '' values to unpack'')))"

definition unpack3 :: "pyval \<Rightarrow> exn + (pyval \<times> pyval \<times> pyval)" where
  "unpack3 v =
     (case py_iter v of
        Inl ex \<Rightarrow> Inl ex
      | Inr [a, b, c] \<Rightarrow> Inr (a, b, c)
      | Inr vs \<Rightarrow> Inl (unpack_error (length vs)))"

fun as_number :: "pyval \<Rightarrow> exn + int" where
  "as_number (PInt n) = Inr n"
| "as_number (PBool b) = Inr (if b then 1 else 0)"
| "as_number v = Inl (TypeError (''%d format: a number is required, not '' @ type_name v))"

text \<open>
  Modelled from the spec: \<^verbatim>\<open>runBulkJobs\<close> of the scheduler session belongs to the drmaa
  library, which is not part of the sources. The spec's array job addressing is
  "one-based inclusive start, inclusive end, positive step": the scheduler runs one task
  for each index \<open>lo\<close>, \<open>lo + step\<close>, \<dots> that is not beyond \<open>hi\<close>.
\<close>

definition bulk_indices :: "int \<Rightarrow> int \<Rightarrow> int \<Rightarrow> int list" where
  "bulk_indices lo hi step =
     (if step \<le> 0 \<or> hi < lo then []
      else map (\<lambda>k. lo + int k * step) [0..<nat ((hi - lo) div step + 1)])"

text \<open>The branch for an array job, lines 1989 to 2001.\<close>

definition run_array_job :: "pyval \<Rightarrow> string \<Rightarrow> string \<Rightarrow> string \<Rightarrow> unit action" where
  "run_array_job job_array job_path stdout_path stderr_path =
     (case unpack3 job_array of
        Inl ex \<Rightarrow> raise ex
      | Inr (start, end, increment) \<Rightarrow>
          (case as_number start of
             Inl ex \<Rightarrow> raise ex
           | Inr s \<Rightarrow>
               (case as_number end of
                  Inl ex \<Rightarrow> raise ex
                | Inr n \<Rightarrow>
                    (case as_number increment of
                       Inl ex \<Rightarrow> raise ex
                     | Inr i \<Rightarrow>
                         seq (emit (RunBulkJobs job_path (s + 1) n i)) (\<lambda>_.
                           let job_ids = map Task (bulk_indices (s + 1) n i) in
                           if job_ids = [] then raise (IndexError ''list index out of range'')
                           else seq (emit (Synchronize job_ids True)) (\<lambda>_.
                                  emit (GetStdoutStderr stdout_path stderr_path)))))))"

text \<open>The branch for a single statement, which may be an array job.\<close>

definition run_cluster_single ::
  "env \<Rightarrow> pydict \<Rightarrow> pyval \<Rightarrow> string \<Rightarrow> bool \<Rightarrow> bool \<Rightarrow> unit action" where
  "run_cluster_single e options job_memory job_name ignore_pipe_errors ignore_errors =
     (case buildStatement (dict_keys e) (global_PARAMS e) options of
        Inl ex \<Rightarrow> raise ex
      | Inr statement \<Rightarrow>
          if truthy (py_get options ''dryrun'' (PBool False)) then ret ()
          else
            seq (buildJobScript e 0 ignore_pipe_errors statement job_memory job_name)
              (\<lambda>(job_path, stdout_path, stderr_path).
            seq (setupJob (global_PARAMS e) options job_memory job_name) (\<lambda>_.
            seq (if options ''job_array'' \<noteq> None \<and> options ''job_array'' \<noteq> Some PNone
                 then run_array_job (py_get options ''job_array'' PNone) job_path stdout_path
                        stderr_path
                 else seq (emit (RunJob job_path)) (\<lambda>_.
                        collectSingleJobFromCluster e (Job 0) statement stdout_path stderr_path
                          job_path ignore_errors)) (\<lambda>_.
            emit DeleteJobTemplate))))"

definition run_cluster ::
  "env \<Rightarrow> pydict \<Rightarrow> pyval \<Rightarrow> string \<Rightarrow> bool \<Rightarrow> bool \<Rightarrow> unit action" where
  "run_cluster e options job_memory job_name ignore_pipe_errors ignore_errors =
     (if truthy (py_get options ''statements'' PNone)
      then run_cluster_batch e options job_memory job_name ignore_pipe_errors ignore_errors
      else run_cluster_single e options job_memory job_name ignore_pipe_errors ignore_errors)"

section \<open>Local execution\<close>

text \<open>\<^verbatim>\<open>pipes.quote\<close> of Python 2.7.\<close>

definition is_safe_char :: "char \<Rightarrow> bool" where
  "is_safe_char c \<longleftrightarrow> is_letter c \<or> c \<in> set ''0123456789'' \<or> c \<in> set ''@%_-+=:,./''"

definition pipes_quote :: "string \<Rightarrow> string" where
  "pipes_quote s =
     (if list_all is_safe_char s then (if s = [] then [CHR 0x27, CHR 0x27] else s)
      else [CHR 0x27] @
           concat (map (\<lambda>c. if c = CHR 0x27 then [CHR 0x27, CHR 0x22, CHR 0x27, CHR 0x22, CHR 0x27]
                             else [c]) s) @
           [CHR 0x27])"

text \<open>
  A statement with process substitution is wrapped into a call of the shell, which has to
  be a bash.
\<close>

definition wrap_statement :: "string option \<Rightarrow> string \<Rightarrow> exn + string" where
  "wrap_statement shell_var statement =
     (if contains ''<('' statement then
        (let shell = (case shell_var of Some s \<Rightarrow> s | None \<Rightarrow> ''/bin/bash'') in
         if \<not> contains ''bash'' shell
         then Inl (ValueError ''require bash for advanced shell syntax: <()'')
         else Inr (shell @ '' -c '' @ pipes_quote statement))
      else Inr statement)"

text \<open>The loop over the statements of the local path; \<open>k\<close> counts the processes.\<close>

fun run_statements ::
  "env \<Rightarrow> bool \<Rightarrow> bool \<Rightarrow> nat \<Rightarrow> string list \<Rightarrow> unit action" where
  "run_statements e ignore_pipe_errors ignore_errors k [] = ret ()"
| "run_statements e ignore_pipe_errors ignore_errors k (statement # rest) =
     (case wrap_statement (SHELL e) statement of
        Inl ex \<Rightarrow> raise ex
      | Inr statement' \<Rightarrow>
          seq (emit (Popen (expandStatement statement' ignore_pipe_errors))) (\<lambda>_.
            if returncode e k \<noteq> 0 \<and> \<not> ignore_errors
            then raise (PipelineError
                   (pipeline_error_msg (- returncode e k) (process_stderr e k) statement'))
            else run_statements e ignore_pipe_errors ignore_errors (k + 1) rest))"

definition run_local :: "env \<Rightarrow> pydict \<Rightarrow> bool \<Rightarrow> bool \<Rightarrow> unit action" where
  "run_local e options ignore_pipe_errors ignore_errors =
     (case build_statement_list (dict_keys e) (global_PARAMS e) options of
        Inl ex \<Rightarrow> raise ex
      | Inr (statement_list, options') \<Rightarrow>
          if truthy (py_get options' ''dryrun'' (PBool False)) then ret ()
          else run_statements e ignore_pipe_errors ignore_errors 0 statement_list)"

section \<open>The function \<^verbatim>\<open>run\<close>\<close>

text \<open>
  The part of \<^verbatim>\<open>run\<close> before the dispatch: the options with the legacy synonyms, the
  memory of the job, the value of \<^verbatim>\<open>run_on_cluster\<close> and the job name.
\<close>

definition run_setup :: "env \<Rightarrow> (pydict \<times> pyval \<times> pyval \<times> string) action" where
  "run_setup e =
     seq (lift (legacy_synonyms (merged_options e))) (\<lambda>options1.
     seq (resolve_job_memory (global_PARAMS e) options1) (\<lambda>(job_memory, options).
     seq (lift (run_on_cluster options (GLOBAL_SESSION e))) (\<lambda>on_cluster.
     seq (lift (job_name_of options)) (\<lambda>job_name.
     ret (options, job_memory, on_cluster, job_name)))))"

definition run :: "env \<Rightarrow> unit action" where
  "run e =
     seq (run_setup e) (\<lambda>(options, job_memory, on_cluster, job_name).
       let ignore_pipe_errors = truthy (py_get options ''ignore_pipe_errors'' (PBool False));
           ignore_errors = truthy (py_get options ''ignore_errors'' (PBool False))
       in if truthy on_cluster
          then run_cluster e options job_memory job_name ignore_pipe_errors ignore_errors
          else run_local e options ignore_pipe_errors ignore_errors)"

section \<open>Calling a function with pickled arguments\<close>

text \<open>
  The files that hold pickled arguments: a path is mapped to the pair of positional and
  keyword arguments that \<^verbatim>\<open>_pickle_args\<close> wrote. A function of a module takes the
  arguments and the files, may change the files, and returns or raises. \<open>dir_names\<close> is
  what \<^verbatim>\<open>dir(module)\<close> lists.
\<close>

type_synonym files = "string \<rightharpoonup> (pyval list \<times> pydict)"

type_synonym pyfunction = "pyval list \<Rightarrow> pydict \<Rightarrow> files \<Rightarrow> files \<times> exn option"

record pymodule =
  attributes :: "string \<rightharpoonup> pyfunction"
  dir_names :: "string list"

definition unknown_function_msg :: "pymodule \<Rightarrow> string \<Rightarrow> string" where
  "unknown_function_msg m func_name =
     [CHR 0x27] @ ''module'' @ [CHR 0x27] @ '' object has no attribute '' @
     [CHR 0x27] @ func_name @ [CHR 0x27] @
     ''unknown function, available functions are: '' @
     join '','' (filter (\<lambda>x. \<not> prefix ''_'' x) (dir_names m))"

text \<open>
  \<^verbatim>\<open>run_pickled(params)\<close>: \<open>modules\<close> maps the base name of a module to the module that
  \<^verbatim>\<open>importlib.import_module\<close> finds. The file is unlinked by the statement after the
  call of the function.
\<close>

definition run_pickled :: "(string \<rightharpoonup> pymodule) \<Rightarrow> string list \<Rightarrow> files \<Rightarrow> files \<times> (exn + unit)" where
  "run_pickled modules params fs =
     (case params of
        [module_name, func_name, args_file] \<Rightarrow>
          (case modules (basename module_name) of
             None \<Rightarrow> (fs, Inl (ImportError (''No module named '' @ basename module_name)))
           | Some m \<Rightarrow>
               (case attributes m func_name of
                  None \<Rightarrow> (fs, Inl (AttributeError (unknown_function_msg m func_name)))
                | Some function \<Rightarrow>
                    (case fs args_file of
                       None \<Rightarrow> (fs, Inl (IOError (''[Errno 2] No such file or directory: '' @
                                           py_repr_str args_file)))
                     | Some (args, kwargs) \<Rightarrow>
                         (case function args kwargs fs of
                            (fs', Some ex) \<Rightarrow> (fs', Inl ex)
                          | (fs', None) \<Rightarrow>
                              if fs' args_file = None
                              then (fs', Inl (OSError (''[Errno 2] No such file or directory: '' @
                                                py_repr_str args_file)))
                              else (fs'(args_file := None), Inr ())))))
      | _ \<Rightarrow> (fs, Inl (unpack_error (length params))))"

section \<open>Events of the two paths\<close>

fun is_warning :: "event \<Rightarrow> bool" where
  "is_warning (Warn msg) = True"
| "is_warning ev = False"

fun is_local_event :: "event \<Rightarrow> bool" where
  "is_local_event (Popen cmd) = True"
| "is_local_event ev = False"

text \<open>The events of the scheduler session and of job scripts.\<close>

definition is_cluster_event :: "event \<Rightarrow> bool" where
  "is_cluster_event ev \<longleftrightarrow> \<not> is_warning ev \<and> \<not> is_local_event ev"

section \<open>Example environments\<close>

definition example_PARAMS :: pydict where
  "example_PARAMS =
     [''cluster_options'' \<mapsto> PStr '''', ''cluster_queue'' \<mapsto> PStr ''all.q'',
      ''cluster_priority'' \<mapsto> PInt (- 10), ''cluster_memory_resource'' \<mapsto> PStr ''mem_free'',
      ''cluster_memory_default'' \<mapsto> PStr ''4G'']"

text \<open>
  A task with the statement \<^verbatim>\<open>echo %(x)s\<close> and \<^verbatim>\<open>x = "hi"\<close>, a live session, jobs and
  processes that succeed.
\<close>

definition example_env :: env where
  "example_env =
     \<lparr> global_PARAMS = example_PARAMS,
       caller_locals = [''statement'' \<mapsto> PStr ''echo %(x)s'', ''x'' \<mapsto> PStr ''hi'',
                        ''ignore_pipe_errors'' \<mapsto> PBool True],
       call_kwargs = Map.empty,
       GLOBAL_SESSION = Some Session,
       dict_keys = (\<lambda>d. []),
       temp_file = (\<lambda>k. ''/w/ctmp'' @ show_nat k),
       human2bytes = (\<lambda>v. Inr 4000000000),
       wait_result = (\<lambda>j. Exited 0),
       stderr_text = (\<lambda>p. ''''),
       job_file_present = (\<lambda>p. True),
       SHELL = None,
       returncode = (\<lambda>k. 0),
       process_stderr = (\<lambda>k. '''') \<rparr>"

text \<open>Two statements sent to the cluster; the first job exits with status 1.\<close>

definition failing_batch_env :: env where
  "failing_batch_env =
     example_env
       \<lparr> call_kwargs := [''statements'' \<mapsto> PList [PStr ''first'', PStr ''second'']],
         wait_result := (\<lambda>j. if j = Job 0 then Exited 1 else Exited 0) \<rparr>"

text \<open>
  A module \<^verbatim>\<open>tasks\<close> with a function \<^verbatim>\<open>fail\<close> that raises and a function \<^verbatim>\<open>work\<close>
  that returns, and the file of pickled arguments \<^verbatim>\<open>/shared/ctmpArgs\<close>.
\<close>

definition example_modules :: "string \<rightharpoonup> pymodule" where
  "example_modules =
     [''tasks'' \<mapsto>
        \<lparr> attributes = [''fail'' \<mapsto> (\<lambda>args kwargs fs. (fs, Some (ValueError ''bad input''))),
                        ''work'' \<mapsto> (\<lambda>args kwargs fs. (fs, None))],
          dir_names = [''fail'', ''work''] \<rparr>]"

definition example_files :: files where
  "example_files = [''/shared/ctmpArgs'' \<mapsto> ([PInt 1], Map.empty)]"

text \<open>The same task with \<^verbatim>\<open>to_cluster=False\<close> in the call.\<close>

definition local_env :: env where
  "local_env = example_env \<lparr> call_kwargs := [''to_cluster'' \<mapsto> PBool False] \<rparr>"

text \<open>A dry run of the example task, and a dry run of a template with an undefined key.\<close>

definition dry_env :: env where
  "dry_env = example_env \<lparr> call_kwargs := [''dryrun'' \<mapsto> PBool True] \<rparr>"

definition dry_bad_template_env :: env where
  "dry_bad_template_env =
     example_env \<lparr> call_kwargs := [''dryrun'' \<mapsto> PBool True,
                                     ''statement'' \<mapsto> PStr ''echo %(nosuch)s''] \<rparr>"

text \<open>
  The example task with an explicit \<^verbatim>\<open>job_memory\<close>, with the legacy memory request in
  \<^verbatim>\<open>job_options\<close>, and with a legacy request that cannot be parsed.
\<close>

definition explicit_memory_env :: env where
  "explicit_memory_env = example_env \<lparr> call_kwargs := [''job_memory'' \<mapsto> PStr ''8G''] \<rparr>"

definition legacy_memory_env :: env where
  "legacy_memory_env = example_env \<lparr> call_kwargs := [''job_options'' \<mapsto> PStr ''-l mem_free=16G''] \<rparr>"

definition malformed_memory_env :: env where
  "malformed_memory_env = example_env \<lparr> call_kwargs := [''job_options'' \<mapsto> PStr ''-l mem_free 4G''] \<rparr>"

section \<open>Properties of parameter substitution\<close>

lemma substitute_loop_dom:
  "substitute_loop outfile ks lp = Inr r \<Longrightarrow> dom r = dom lp"
proof (induction ks arbitrary: lp)
  case Nil
  then show ?case by simp
next
  case (Cons k ks)
  then show ?case
    by (auto simp: Let_def insert_absorb split: sum.splits bool.splits if_splits option.splits)
qed

text \<open>
  A key that starts with the outfile and whose remainder names no parameter makes the
  loop fail with the task-specific \<^verbatim>\<open>KeyError\<close>, at that key or at an earlier one.
\<close>

lemma substitute_loop_missing:
  assumes "k \<in> set ks" "prefix outf k" "drop (length outf + 1) k \<notin> dom lp" "set ks \<subseteq> dom lp"
  shows "\<exists>k' \<in> set ks. prefix outf k' \<and> drop (length outf + 1) k' \<notin> dom lp \<and>
           substitute_loop (PStr outf) ks lp =
             Inl (KeyError (task_specific_msg (drop (length outf + 1) k') k'))"
  using assms
proof (induction ks arbitrary: lp)
  case Nil
  then show ?case by simp
next
  case (Cons a ks)
  show ?case
  proof (cases "prefix outf a")
    case False
    with Cons.prems have "k \<in> set ks" by auto
    from Cons.IH [OF this Cons.prems(2) Cons.prems(3)] Cons.prems(4) False
    show ?thesis by auto
  next
    case True
    show ?thesis
    proof (cases "lp (drop (length outf + 1) a)")
      case None
      with True show ?thesis by (auto simp: domIff)
    next
      case (Some w)
      with Cons.prems True have ka: "k \<noteq> a" by auto
      with Cons.prems have kin: "k \<in> set ks" by auto
      from Cons.prems(4) obtain v where v: "lp a = Some v" by auto
      let ?lp = "lp(drop (length outf + 1) a \<mapsto> v)"
      from Some have d: "dom ?lp = dom lp" by (auto simp: insert_absorb)
      from Cons.prems(3) d have 3: "drop (length outf + 1) k \<notin> dom ?lp" by simp
      from Cons.prems(4) d have 4: "set ks \<subseteq> dom ?lp" by simp
      from Cons.IH [OF kin Cons.prems(2) 3 4] obtain k' where
        k': "k' \<in> set ks" "prefix outf k'" "drop (length outf + 1) k' \<notin> dom ?lp"
          "substitute_loop (PStr outf) ks ?lp =
             Inl (KeyError (task_specific_msg (drop (length outf + 1) k') k'))"
        by blast
      have step: "substitute_loop (PStr outf) (a # ks) lp = substitute_loop (PStr outf) ks ?lp"
        using True Some v by simp
      from k'(3) d have "drop (length outf + 1) k' \<notin> dom lp" by simp
      with k'(1,2,4) step show ?thesis
        by (intro bexI [of _ k']) simp_all
    qed
  qed
qed

lemma substituteParameters_missing:
  assumes keys: "set (keys (PARAMS ++ kwargs)) = dom (PARAMS ++ kwargs)"
    and o: "(PARAMS ++ kwargs) ''outfile'' = Some (PStr outf)"
    and k: "k \<in> dom (PARAMS ++ kwargs)" "prefix outf k"
      "drop (length outf + 1) k \<notin> dom (PARAMS ++ kwargs)"
  shows "\<exists>k'. k' \<in> dom (PARAMS ++ kwargs) \<and> prefix outf k' \<and>
           drop (length outf + 1) k' \<notin> dom (PARAMS ++ kwargs) \<and>
           substituteParameters keys PARAMS kwargs =
             Inl (KeyError (task_specific_msg (drop (length outf + 1) k') k'))"
proof -
  let ?m = "PARAMS ++ kwargs"
  have 1: "k \<in> set (keys ?m)" using k(1) keys by simp
  have 4: "set (keys ?m) \<subseteq> dom ?m" using keys by simp
  from substitute_loop_missing [OF 1 k(2) k(3) 4] obtain k' where
    k': "k' \<in> set (keys ?m)" "prefix outf k'" "drop (length outf + 1) k' \<notin> dom ?m"
    "substitute_loop (PStr outf) (keys ?m) ?m =
       Inl (KeyError (task_specific_msg (drop (length outf + 1) k') k'))"
    by auto
  have "substituteParameters keys PARAMS kwargs = substitute_loop (PStr outf) (keys ?m) ?m"
    using o by (simp add: substituteParameters_def Let_def)
  with k' keys show ?thesis
    by (intro exI [of _ k']) simp
qed

text \<open>
  The value that the loop leaves at a parameter \<open>T\<close>. Suppose that the remainder of
  every key that starts with the outfile is a parameter, that every key that starts with
  the outfile and has the remainder \<open>T\<close> has the value \<open>v\<close>, and that none of these
  keys is itself the remainder of a key that starts with the outfile. Then the loop
  returns, and \<open>T\<close> has the value \<open>v\<close> if one of the keys has the remainder \<open>T\<close> and
  keeps its value otherwise, in whatever order the keys are visited.
\<close>

lemma substitute_loop_target:
  assumes ex: "\<forall>k \<in> set ks. prefix outf k \<longrightarrow> drop (length outf + 1) k \<in> dom lp"
    and sub: "set ks \<subseteq> dom lp"
    and val: "\<forall>k \<in> set ks. prefix outf k \<and> drop (length outf + 1) k = T \<longrightarrow> lp k = Some v"
    and src: "\<forall>k \<in> set ks. prefix outf k \<longrightarrow>
                \<not> (prefix outf (drop (length outf + 1) k) \<and>
                   drop (length outf + 1) (drop (length outf + 1) k) = T)"
  shows "\<exists>r. substitute_loop (PStr outf) ks lp = Inr r \<and>
           r T = (if \<exists>k \<in> set ks. prefix outf k \<and> drop (length outf + 1) k = T
                  then Some v else lp T)"
  using assms
proof (induction ks arbitrary: lp)
  case Nil
  then show ?case by simp
next
  case (Cons a ks)
  let ?p = "drop (length outf + 1) a"
  have ex': "\<forall>k \<in> set ks. prefix outf k \<longrightarrow> drop (length outf + 1) k \<in> dom lp"
    using Cons.prems(1) by simp
  have sub': "set ks \<subseteq> dom lp" using Cons.prems(2) by simp
  have val': "\<forall>k \<in> set ks. prefix outf k \<and> drop (length outf + 1) k = T \<longrightarrow> lp k = Some v"
    using Cons.prems(3) by simp
  have src': "\<forall>k \<in> set ks. prefix outf k \<longrightarrow>
                \<not> (prefix outf (drop (length outf + 1) k) \<and>
                   drop (length outf + 1) (drop (length outf + 1) k) = T)"
    using Cons.prems(4) by simp
  show ?case
  proof (cases "prefix outf a")
    case False
    have step: "substitute_loop (PStr outf) (a # ks) lp = substitute_loop (PStr outf) ks lp"
      using False by simp
    have c: "(\<exists>k \<in> set (a # ks). prefix outf k \<and> drop (length outf + 1) k = T) =
             (\<exists>k \<in> set ks. prefix outf k \<and> drop (length outf + 1) k = T)"
      using False by auto
    show ?thesis
      unfolding step c by (rule Cons.IH [OF ex' sub' val' src'])
  next
    case True
    from Cons.prems(1) True have "?p \<in> dom lp" by simp
    then obtain u where u: "lp ?p = Some u" by blast
    from Cons.prems(2) have "a \<in> dom lp" by simp
    then obtain w where w: "lp a = Some w" by blast
    let ?lp = "lp(?p \<mapsto> w)"
    have d: "dom ?lp = dom lp" using u by (auto simp: insert_absorb)
    have step: "substitute_loop (PStr outf) (a # ks) lp = substitute_loop (PStr outf) ks ?lp"
      using True u w by simp
    have na: "\<not> (prefix outf ?p \<and> drop (length outf + 1) ?p = T)"
      using Cons.prems(4) True by simp
    have 1: "\<forall>k \<in> set ks. prefix outf k \<longrightarrow> drop (length outf + 1) k \<in> dom ?lp"
      using ex' unfolding d .
    have 2: "set ks \<subseteq> dom ?lp" using sub' unfolding d .
    have 3: "\<forall>k \<in> set ks. prefix outf k \<and> drop (length outf + 1) k = T \<longrightarrow> ?lp k = Some v"
    proof (intro ballI impI)
      fix k assume k: "k \<in> set ks" "prefix outf k \<and> drop (length outf + 1) k = T"
      with na have "k \<noteq> ?p" by blast
      then have "?lp k = lp k" by simp
      with val' k show "?lp k = Some v" by simp
    qed
    from Cons.IH [OF 1 2 3 src'] obtain r where
      r: "substitute_loop (PStr outf) ks ?lp = Inr r"
        "r T = (if \<exists>k \<in> set ks. prefix outf k \<and> drop (length outf + 1) k = T
                then Some v else ?lp T)"
      by blast
    have "r T = (if \<exists>k \<in> set (a # ks). prefix outf k \<and> drop (length outf + 1) k = T
                 then Some v else lp T)"
    proof (cases "?p = T")
      case eq: True
      from Cons.prems(3) True eq have "lp a = Some v" by simp
      with w have wv: "w = v" by simp
      have "?lp ?p = Some w" by (rule fun_upd_same)
      then have l: "?lp T = Some v" unfolding eq wv .
      have c: "\<exists>k \<in> set (a # ks). prefix outf k \<and> drop (length outf + 1) k = T"
        using True eq by (intro bexI [of _ a]) simp_all
      from r(2) have "r T = Some v" unfolding l by (simp only: if_cancel)
      with c show ?thesis by (simp only: if_True)
    next
      case ne: False
      then have "T \<noteq> ?p" by (rule not_sym)
      then have l: "?lp T = lp T" by (rule fun_upd_other)
      have c: "(\<exists>k \<in> set (a # ks). prefix outf k \<and> drop (length outf + 1) k = T) =
               (\<exists>k \<in> set ks. prefix outf k \<and> drop (length outf + 1) k = T)"
        using ne by auto
      from r(2) show ?thesis unfolding l c .
    qed
    with r(1) step show ?thesis by simp
  qed
qed

lemma substituteParameters_target:
  assumes keys: "set (keys (PARAMS ++ kwargs)) = dom (PARAMS ++ kwargs)"
    and o: "(PARAMS ++ kwargs) ''outfile'' = Some (PStr outf)"
    and K: "K \<in> dom (PARAMS ++ kwargs)" "prefix outf K" "drop (length outf + 1) K = T"
    and side: "\<forall>k \<in> dom (PARAMS ++ kwargs). prefix outf k \<longrightarrow>
                 drop (length outf + 1) k \<in> dom (PARAMS ++ kwargs) \<and>
                 (drop (length outf + 1) k = T \<longrightarrow> (PARAMS ++ kwargs) k = Some v) \<and>
                 \<not> (prefix outf (drop (length outf + 1) k) \<and>
                    drop (length outf + 1) (drop (length outf + 1) k) = T)"
  shows "\<exists>r. substituteParameters keys PARAMS kwargs = Inr r \<and> r T = Some v"
proof -
  let ?m = "PARAMS ++ kwargs"
  have 1: "\<forall>k \<in> set (keys ?m). prefix outf k \<longrightarrow> drop (length outf + 1) k \<in> dom ?m"
    using side unfolding keys by simp
  have 2: "set (keys ?m) \<subseteq> dom ?m" unfolding keys by (rule subset_refl)
  have 3: "\<forall>k \<in> set (keys ?m). prefix outf k \<and> drop (length outf + 1) k = T \<longrightarrow> ?m k = Some v"
    using side unfolding keys by simp
  have 4: "\<forall>k \<in> set (keys ?m). prefix outf k \<longrightarrow>
             \<not> (prefix outf (drop (length outf + 1) k) \<and>
                drop (length outf + 1) (drop (length outf + 1) k) = T)"
    using side unfolding keys by simp
  have 5: "\<exists>k \<in> set (keys ?m). prefix outf k \<and> drop (length outf + 1) k = T"
    unfolding keys using K by (intro bexI [of _ K] conjI)
  from substitute_loop_target [OF 1 2 3 4] obtain r where
    r: "substitute_loop (PStr outf) (keys ?m) ?m = Inr r"
      "r T = (if \<exists>k \<in> set (keys ?m). prefix outf k \<and> drop (length outf + 1) k = T
              then Some v else ?m T)"
    by (elim exE conjE)
  from r(2) 5 have "r T = Some v" by (simp only: if_True)
  moreover have "substituteParameters keys PARAMS kwargs = Inr r"
    using o r(1) by (simp add: substituteParameters_def Let_def)
  ultimately show ?thesis by (intro exI [of _ r] conjI)
qed

text \<open>
  Against claim C4 as stated: four calls with \<^verbatim>\<open>outfile="sample1.bam.gz"\<close> among the
  overrides, the global key \<^verbatim>\<open>"sample1.bam.gz_threads"\<close> set to 6 and the global key
  \<^verbatim>\<open>"threads"\<close> set to 4, none of which gives \<^verbatim>\<open>threads == 6\<close>.
  \<^item> A further global key \<^verbatim>\<open>"sample1.bam.gz.bai_threads"\<close> starts with the outfile and its
    remainder \<^verbatim>\<open>"bai_threads"\<close> is no parameter: the call raises \<^verbatim>\<open>KeyError\<close>.
  \<^item> The overrides set \<^verbatim>\<open>"sample1.bam.gz_threads"\<close> to 7: the result has \<^verbatim>\<open>threads == 7\<close>.
  \<^item> A further global key \<^verbatim>\<open>"sample1.bam.gz.threads"\<close>, set to 9, has the remainder
    \<^verbatim>\<open>"threads"\<close> as well and is listed later: the result has \<^verbatim>\<open>threads == 9\<close>.
  \<^item> A further global key \<^verbatim>\<open>"sample1.bam.gz_sample1.bam.gz_threads"\<close>, set to 8, has the
    remainder \<^verbatim>\<open>"sample1.bam.gz_threads"\<close> and is listed earlier: the result has
    \<^verbatim>\<open>threads == 8\<close>.
\<close>

theorem substituteParameters_task_specific_counterexample:
  "substituteParameters
     (\<lambda>d. [''threads'', ''outfile'', ''sample1.bam.gz_threads'', ''sample1.bam.gz.bai_threads''])
     [''threads'' \<mapsto> PInt 4, ''sample1.bam.gz_threads'' \<mapsto> PInt 6,
      ''sample1.bam.gz.bai_threads'' \<mapsto> PInt 8]
     [''outfile'' \<mapsto> PStr ''sample1.bam.gz'']
   = Inl (KeyError (task_specific_msg ''bai_threads'' ''sample1.bam.gz.bai_threads''))
   \<and> substituteParameters
     (\<lambda>d. [''threads'', ''outfile'', ''sample1.bam.gz_threads''])
     [''threads'' \<mapsto> PInt 4, ''sample1.bam.gz_threads'' \<mapsto> PInt 6]
     [''outfile'' \<mapsto> PStr ''sample1.bam.gz'', ''sample1.bam.gz_threads'' \<mapsto> PInt 7]
   = Inr [''threads'' \<mapsto> PInt 7, ''sample1.bam.gz_threads'' \<mapsto> PInt 7,
          ''outfile'' \<mapsto> PStr ''sample1.bam.gz'']
   \<and> substituteParameters
     (\<lambda>d. [''threads'', ''outfile'', ''sample1.bam.gz_threads'', ''sample1.bam.gz.threads''])
     [''threads'' \<mapsto> PInt 4, ''sample1.bam.gz_threads'' \<mapsto> PInt 6,
      ''sample1.bam.gz.threads'' \<mapsto> PInt 9]
     [''outfile'' \<mapsto> PStr ''sample1.bam.gz'']
   = Inr [''threads'' \<mapsto> PInt 9, ''sample1.bam.gz_threads'' \<mapsto> PInt 6,
          ''sample1.bam.gz.threads'' \<mapsto> PInt 9, ''outfile'' \<mapsto> PStr ''sample1.bam.gz'']
   \<and> substituteParameters
     (\<lambda>d. [''threads'', ''outfile'', ''sample1.bam.gz_sample1.bam.gz_threads'',
           ''sample1.bam.gz_threads''])
     [''threads'' \<mapsto> PInt 4, ''sample1.bam.gz_threads'' \<mapsto> PInt 6,
      ''sample1.bam.gz_sample1.bam.gz_threads'' \<mapsto> PInt 8]
     [''outfile'' \<mapsto> PStr ''sample1.bam.gz'']
   = Inr [''threads'' \<mapsto> PInt 8, ''sample1.bam.gz_threads'' \<mapsto> PInt 8,
          ''sample1.bam.gz_sample1.bam.gz_threads'' \<mapsto> PInt 8,
          ''outfile'' \<mapsto> PStr ''sample1.bam.gz'']"
proof (intro conjI)
  show "substituteParameters
     (\<lambda>d. [''threads'', ''outfile'', ''sample1.bam.gz_threads'', ''sample1.bam.gz.bai_threads''])
     [''threads'' \<mapsto> PInt 4, ''sample1.bam.gz_threads'' \<mapsto> PInt 6,
      ''sample1.bam.gz.bai_threads'' \<mapsto> PInt 8]
     [''outfile'' \<mapsto> PStr ''sample1.bam.gz'']
   = Inl (KeyError (task_specific_msg ''bai_threads'' ''sample1.bam.gz.bai_threads''))"
    by (simp add: substituteParameters_def Let_def)
  show "substituteParameters
     (\<lambda>d. [''threads'', ''outfile'', ''sample1.bam.gz_threads''])
     [''threads'' \<mapsto> PInt 4, ''sample1.bam.gz_threads'' \<mapsto> PInt 6]
     [''outfile'' \<mapsto> PStr ''sample1.bam.gz'', ''sample1.bam.gz_threads'' \<mapsto> PInt 7]
   = Inr [''threads'' \<mapsto> PInt 7, ''sample1.bam.gz_threads'' \<mapsto> PInt 7,
          ''outfile'' \<mapsto> PStr ''sample1.bam.gz'']"
    by (simp add: substituteParameters_def Let_def fun_eq_iff)
  show "substituteParameters
     (\<lambda>d. [''threads'', ''outfile'', ''sample1.bam.gz_threads'', ''sample1.bam.gz.threads''])
     [''threads'' \<mapsto> PInt 4, ''sample1.bam.gz_threads'' \<mapsto> PInt 6,
      ''sample1.bam.gz.threads'' \<mapsto> PInt 9]
     [''outfile'' \<mapsto> PStr ''sample1.bam.gz'']
   = Inr [''threads'' \<mapsto> PInt 9, ''sample1.bam.gz_threads'' \<mapsto> PInt 6,
          ''sample1.bam.gz.threads'' \<mapsto> PInt 9, ''outfile'' \<mapsto> PStr ''sample1.bam.gz'']"
    by (simp add: substituteParameters_def Let_def fun_eq_iff)
  show "substituteParameters
     (\<lambda>d. [''threads'', ''outfile'', ''sample1.bam.gz_sample1.bam.gz_threads'',
           ''sample1.bam.gz_threads''])
     [''threads'' \<mapsto> PInt 4, ''sample1.bam.gz_threads'' \<mapsto> PInt 6,
      ''sample1.bam.gz_sample1.bam.gz_threads'' \<mapsto> PInt 8]
     [''outfile'' \<mapsto> PStr ''sample1.bam.gz'']
   = Inr [''threads'' \<mapsto> PInt 8, ''sample1.bam.gz_threads'' \<mapsto> PInt 8,
          ''sample1.bam.gz_sample1.bam.gz_threads'' \<mapsto> PInt 8,
          ''outfile'' \<mapsto> PStr ''sample1.bam.gz'']"
    by (simp add: substituteParameters_def Let_def fun_eq_iff)
qed

text \<open>
  Claim C4, as the code has it. Let \<^verbatim>\<open>outfile="sample1.bam.gz"\<close> be among the overrides
  and let the global keys \<^verbatim>\<open>"sample1.bam.gz_threads"\<close> and \<^verbatim>\<open>"threads"\<close> be set to 6 and
  to 4. The remainder of a key is what is left of it after the outfile and one more
  character. If, in the merged mapping, every key that starts with the outfile has a
  remainder that is a key, has the value 6 when its remainder is \<^verbatim>\<open>"threads"\<close>, and has
  no remainder that itself starts with the outfile and has the remainder \<^verbatim>\<open>"threads"\<close>,
  then the call succeeds and the resulting mapping has \<^verbatim>\<open>threads == 6\<close>. And whenever a
  key \<open>k\<close> of the merged mapping starts with the outfile string and the remainder of \<open>k\<close>
  is not a key of the merged mapping, the call fails with a \<^verbatim>\<open>KeyError\<close>. Both hold for
  every order in which the dictionary lists its keys.
\<close>

theorem substituteParameters_task_specific:
  assumes "set (keys (PARAMS ++ kwargs)) = dom (PARAMS ++ kwargs)"
  shows "(kwargs ''outfile'' = Some (PStr ''sample1.bam.gz'') \<and>
          PARAMS ''sample1.bam.gz_threads'' = Some (PInt 6) \<and>
          PARAMS ''threads'' = Some (PInt 4) \<and>
          (\<forall>k \<in> dom (PARAMS ++ kwargs). prefix ''sample1.bam.gz'' k \<longrightarrow>
             drop (length ''sample1.bam.gz'' + 1) k \<in> dom (PARAMS ++ kwargs) \<and>
             (drop (length ''sample1.bam.gz'' + 1) k = ''threads'' \<longrightarrow>
                (PARAMS ++ kwargs) k = Some (PInt 6)) \<and>
             \<not> (prefix ''sample1.bam.gz'' (drop (length ''sample1.bam.gz'' + 1) k) \<and>
                drop (length ''sample1.bam.gz'' + 1)
                  (drop (length ''sample1.bam.gz'' + 1) k) = ''threads''))
          \<longrightarrow> (\<exists>r. substituteParameters keys PARAMS kwargs = Inr r \<and>
                    r ''threads'' = Some (PInt 6)))
       \<and> ((PARAMS ++ kwargs) ''outfile'' = Some (PStr outf) \<and>
          k \<in> dom (PARAMS ++ kwargs) \<and> prefix outf k \<and>
          drop (length outf + 1) k \<notin> dom (PARAMS ++ kwargs)
          \<longrightarrow> (\<exists>msg. substituteParameters keys PARAMS kwargs = Inl (KeyError msg)))"
proof (intro conjI impI, goal_cases)
  case 1
  let ?m = "PARAMS ++ kwargs"
  let ?O = "''sample1.bam.gz''"
  let ?K = "''sample1.bam.gz_threads''"
  from 1 have h1: "kwargs ''outfile'' = Some (PStr ?O)" by (elim conjE)
  from 1 have h2: "PARAMS ?K = Some (PInt 6)" by (elim conjE)
  from 1 have side: "\<forall>k \<in> dom ?m. prefix ?O k \<longrightarrow>
             drop (length ?O + 1) k \<in> dom ?m \<and>
             (drop (length ?O + 1) k = ''threads'' \<longrightarrow> ?m k = Some (PInt 6)) \<and>
             \<not> (prefix ?O (drop (length ?O + 1) k) \<and>
                drop (length ?O + 1) (drop (length ?O + 1) k) = ''threads'')"
    by (elim conjE)
  have o: "?m ''outfile'' = Some (PStr ?O)" using h1 by (simp only: map_add_def option.case)
  have "?K \<in> dom PARAMS" using h2 by (rule domI)
  then have K: "?K \<in> dom ?m" by (simp only: dom_map_add Un_iff simp_thms)
  have pk: "prefix ?O ?K" by simp
  have p: "drop (length ?O + 1) ?K = ''threads''" by simp
  show ?case
    by (rule substituteParameters_target [of keys PARAMS kwargs ?O ?K "''threads''" "PInt 6",
          OF assms o K pk p side])
next
  case 2
  then have o: "(PARAMS ++ kwargs) ''outfile'' = Some (PStr outf)"
    and k: "k \<in> dom (PARAMS ++ kwargs)" "prefix outf k"
      "drop (length outf + 1) k \<notin> dom (PARAMS ++ kwargs)"
    by simp_all
  from substituteParameters_missing [of keys PARAMS kwargs, OF assms o k] show ?case by auto
qed

text \<open>
  The call of the claim with a second task-specific key, \<^verbatim>\<open>"sample1.bam.gz_cutoff"\<close>, whose
  remainder \<^verbatim>\<open>"cutoff"\<close> is a parameter; and a call with the global key
  \<^verbatim>\<open>"sample1.bam.gz_nosuch"\<close>, whose remainder \<^verbatim>\<open>"nosuch"\<close> is no parameter.
\<close>

theorem substituteParameters_task_specific_witness:
  "(\<exists>r. substituteParameters
          (\<lambda>d. [''cutoff'', ''sample1.bam.gz_cutoff'', ''threads'', ''outfile'',
                ''sample1.bam.gz_threads''])
          [''threads'' \<mapsto> PInt 4, ''cutoff'' \<mapsto> PInt 1,
           ''sample1.bam.gz_threads'' \<mapsto> PInt 6, ''sample1.bam.gz_cutoff'' \<mapsto> PInt 2]
          [''outfile'' \<mapsto> PStr ''sample1.bam.gz''] = Inr r \<and> r ''threads'' = Some (PInt 6))
   \<and> (\<exists>msg. substituteParameters
          (\<lambda>d. [''threads'', ''outfile'', ''sample1.bam.gz_nosuch''])
          [''threads'' \<mapsto> PInt 4, ''sample1.bam.gz_nosuch'' \<mapsto> PInt 6]
          [''outfile'' \<mapsto> PStr ''sample1.bam.gz''] = Inl (KeyError msg))"
proof -
  let ?PA = "[''threads'' \<mapsto> PInt 4, ''cutoff'' \<mapsto> PInt 1,
              ''sample1.bam.gz_threads'' \<mapsto> PInt 6, ''sample1.bam.gz_cutoff'' \<mapsto> PInt 2]"
  let ?PB = "[''threads'' \<mapsto> PInt 4, ''sample1.bam.gz_nosuch'' \<mapsto> PInt 6]"
  let ?kw = "[''outfile'' \<mapsto> PStr ''sample1.bam.gz'']"
  let ?ka = "\<lambda>d::pydict. [''cutoff'', ''sample1.bam.gz_cutoff'', ''threads'', ''outfile'',
                           ''sample1.bam.gz_threads'']"
  let ?kb = "\<lambda>d::pydict. [''threads'', ''outfile'', ''sample1.bam.gz_nosuch'']"
  have a: "set (?ka (?PA ++ ?kw)) = dom (?PA ++ ?kw)"
    by (simp add: insert_commute)
  have b: "set (?kb (?PB ++ ?kw)) = dom (?PB ++ ?kw)"
    by (simp add: insert_commute)
  have ha: "?kw ''outfile'' = Some (PStr ''sample1.bam.gz'') \<and>
          ?PA ''sample1.bam.gz_threads'' = Some (PInt 6) \<and>
          ?PA ''threads'' = Some (PInt 4) \<and>
          (\<forall>k \<in> dom (?PA ++ ?kw). prefix ''sample1.bam.gz'' k \<longrightarrow>
             drop (length ''sample1.bam.gz'' + 1) k \<in> dom (?PA ++ ?kw) \<and>
             (drop (length ''sample1.bam.gz'' + 1) k = ''threads'' \<longrightarrow>
                (?PA ++ ?kw) k = Some (PInt 6)) \<and>
             \<not> (prefix ''sample1.bam.gz'' (drop (length ''sample1.bam.gz'' + 1) k) \<and>
                drop (length ''sample1.bam.gz'' + 1)
                  (drop (length ''sample1.bam.gz'' + 1) k) = ''threads''))"
    by simp
  have hb: "(?PB ++ ?kw) ''outfile'' = Some (PStr ''sample1.bam.gz'') \<and>
          ''sample1.bam.gz_nosuch'' \<in> dom (?PB ++ ?kw) \<and>
          prefix ''sample1.bam.gz'' ''sample1.bam.gz_nosuch'' \<and>
          drop (length ''sample1.bam.gz'' + 1) ''sample1.bam.gz_nosuch'' \<notin> dom (?PB ++ ?kw)"
    by simp
  have A: "\<exists>r. substituteParameters ?ka ?PA ?kw = Inr r \<and> r ''threads'' = Some (PInt 6)"
    by (rule mp [OF conjunct1 [OF substituteParameters_task_specific [of ?ka ?PA ?kw, OF a]] ha])
  have B: "\<exists>msg. substituteParameters ?kb ?PB ?kw = Inl (KeyError msg)"
    by (rule mp [OF conjunct2 [OF substituteParameters_task_specific
          [of ?kb ?PB ?kw "''sample1.bam.gz''" "''sample1.bam.gz_nosuch''", OF b]] hb])
  from A B show ?thesis by (rule conjI)
qed

text \<open>
  Claim C10. When the merged dictionary has a key equal to the outfile string itself and
  the empty string is not one of its keys, the call raises the \<^verbatim>\<open>KeyError\<close> for a missing
  task-specific parameter: for some key \<open>k\<close> that starts with the outfile, the name
  left after the outfile and one more character is no key. (For the key equal to the
  outfile that name is the empty string; the error is raised for it or for a key of the
  same kind that the loop visits before it.)
\<close>

theorem substituteParameters_outfile_is_key:
  assumes "set (keys (PARAMS ++ kwargs)) = dom (PARAMS ++ kwargs)"
    and "(PARAMS ++ kwargs) ''outfile'' = Some (PStr outf)"
    and "outf \<in> dom (PARAMS ++ kwargs)"
    and "[] \<notin> dom (PARAMS ++ kwargs)"
  shows "\<exists>k. k \<in> dom (PARAMS ++ kwargs) \<and> prefix outf k \<and>
           drop (length outf + 1) k \<notin> dom (PARAMS ++ kwargs) \<and>
           substituteParameters keys PARAMS kwargs =
             Inl (KeyError (task_specific_msg (drop (length outf + 1) k) k))"
proof -
  have 2: "prefix outf outf" by simp
  have 3: "drop (length outf + 1) outf \<notin> dom (PARAMS ++ kwargs)" using assms(4) by simp
  show ?thesis
    by (rule substituteParameters_missing [of keys PARAMS kwargs, OF assms(1) assms(2) assms(3) 2 3])
qed

theorem substituteParameters_outfile_is_key_witness:
  "\<exists>k. substituteParameters (\<lambda>d. [''out.txt'', ''outfile''])
          [''out.txt'' \<mapsto> PInt 1] [''outfile'' \<mapsto> PStr ''out.txt''] =
        Inl (KeyError (task_specific_msg (drop (length ''out.txt'' + 1) k) k))"
proof -
  let ?P = "[''out.txt'' \<mapsto> PInt 1]"
  let ?kw = "[''outfile'' \<mapsto> PStr ''out.txt'']"
  let ?ks = "\<lambda>d::pydict. [''out.txt'', ''outfile'']"
  have 1: "set (?ks (?P ++ ?kw)) = dom (?P ++ ?kw)" by (simp add: insert_commute)
  have 2: "(?P ++ ?kw) ''outfile'' = Some (PStr ''out.txt'')" by simp
  have 3: "''out.txt'' \<in> dom (?P ++ ?kw)" by simp
  have 4: "[] \<notin> dom (?P ++ ?kw)" by simp
  from substituteParameters_outfile_is_key [of ?ks ?P ?kw, OF 1 2 3 4] show ?thesis by auto
qed

section \<open>Properties of string formatting and statement building\<close>

lemma prepend_prepend: "prepend s (prepend t x) = prepend (s @ t) x"
  by (cases x) (simp_all add: prepend_def)

lemma prepend_Nil: "prepend [] x = x"
  by (cases x) (simp_all add: prepend_def)

lemma prepend_Inr_iff: "prepend s x = Inr r \<longleftrightarrow> (\<exists>t. x = Inr t \<and> r = s @ t)"
  by (cases x) (auto simp: prepend_def)

lemma prepend_Inl_iff: "prepend s x = Inl e \<longleftrightarrow> x = Inl e"
  by (cases x) (auto simp: prepend_def)

text \<open>
  Formatting is sequential: when the text \<open>pre\<close> formats without error, formatting
  \<open>pre @ rest\<close> continues with \<open>rest\<close> from some state of the current object.
\<close>

lemma format_from_append:
  "format_from (Some dict) mode cur av i pre = Inr s \<Longrightarrow>
   \<exists>cur' av'. \<forall>rest. format_from (Some dict) mode cur av i (pre @ rest) =
      prepend s (format_from (Some dict) Text cur' av' (i + length pre) rest)"
proof (induction pre arbitrary: mode cur av i s)
  case Nil
  then show ?case
    by (cases mode) (auto simp: prepend_Nil intro!: exI [of _ cur] exI [of _ av])
next
  case (Cons c cs)
  have use_IH: "\<exists>cur' av'. \<forall>rest. format_from (Some dict) mode cur av i ((c # cs) @ rest) =
      prepend s (format_from (Some dict) Text cur' av' (i + length (c # cs)) rest)"
    if step: "\<And>rest. format_from (Some dict) mode cur av i (c # cs @ rest) =
                prepend t (format_from (Some dict) m' c' a' (i + 1) (cs @ rest))"
      and sub: "format_from (Some dict) m' c' a' (i + 1) cs = Inr s'" and s: "s = t @ s'"
    for t m' c' a' s'
  proof -
    from Cons.IH [OF sub] obtain cur' av' where
      "\<forall>rest. format_from (Some dict) m' c' a' (i + 1) (cs @ rest) =
         prepend s' (format_from (Some dict) Text cur' av' (i + 1 + length cs) rest)"
      by blast
    then have "\<forall>rest. format_from (Some dict) mode cur av i ((c # cs) @ rest) =
      prepend s (format_from (Some dict) Text cur' av' (i + length (c # cs)) rest)"
      using step s by (simp add: prepend_prepend)
    then show ?thesis by blast
  qed
  show ?case
  proof (cases mode)
    case Text
    show ?thesis
    proof (cases "c = CHR ''%''")
      case True
      with Cons.prems Text have "format_from (Some dict) Percent cur av (i + 1) cs = Inr s" by simp
      then show ?thesis
        by (rule use_IH [where t = "[]", rotated]) (simp_all add: True Text prepend_Nil)
    next
      case False
      with Cons.prems Text obtain s' where
        s': "format_from (Some dict) Text cur av (i + 1) cs = Inr s'" "s = [c] @ s'"
        by (auto simp: prepend_Inr_iff)
      show ?thesis
        by (rule use_IH [OF _ s']) (simp add: False Text)
    qed
  next
    case Percent
    show ?thesis
    proof (cases "c = CHR ''(''")
      case True
      with Cons.prems Percent have "format_from (Some dict) (Key 1 []) cur av (i + 1) cs = Inr s"
        by simp
      then show ?thesis
        by (rule use_IH [where t = "[]", rotated]) (simp_all add: True Percent prepend_Nil)
    next
      case False
      with Cons.prems Percent obtain t av' s' where
        c: "convert cur av i c = Inr (t, av')"
        and s': "format_from (Some dict) Text cur av' (i + 1) cs = Inr s'" "s = t @ s'"
        by (auto simp: prepend_Inr_iff split: sum.splits)
      show ?thesis
        by (rule use_IH [OF _ s']) (simp add: False Percent c)
    qed
  next
    case (Key n acc)
    show ?thesis
    proof (cases "c = CHR '')'' \<and> n \<le> 1")
      case True
      with Cons.prems Key obtain v where
        v: "dict (rev acc) = Some v" "format_from (Some dict) Conv (Some v) True (i + 1) cs = Inr s"
        by (auto split: option.splits)
      from True have cn: "c = CHR '')''" "n \<le> Suc 0" by simp_all
      show ?thesis
        by (rule use_IH [where t = "[]", OF _ v(2)]) (simp_all add: cn Key v(1) prepend_Nil)
    next
      case False
      let ?m = "if c = CHR '')'' then Key (n - 1) (c # acc)
                else if c = CHR ''('' then Key (n + 1) (c # acc) else Key n (c # acc)"
      from False Key have step: "\<And>xs. format_from (Some dict) mode cur av i (c # xs) =
          format_from (Some dict) ?m cur av (i + 1) xs"
        by simp
      with Cons.prems have sub: "format_from (Some dict) ?m cur av (i + 1) cs = Inr s" by simp
      show ?thesis
        by (rule use_IH [where t = "[]", OF _ sub]) (simp_all only: step prepend_Nil append_Nil)
    qed
  next
    case Conv
    with Cons.prems obtain t av' s' where
      c: "convert cur av i c = Inr (t, av')"
      and s': "format_from (Some dict) Text cur av' (i + 1) cs = Inr s'" "s = t @ s'"
      by (auto simp: prepend_Inr_iff split: sum.splits)
    show ?thesis
      by (rule use_IH [OF _ s']) (simp add: Conv c)
  qed
qed

lemma format_from_key:
  "CHR ''('' \<notin> set key \<Longrightarrow> CHR '')'' \<notin> set key \<Longrightarrow>
   format_from (Some dict) (Key (Suc 0) acc) cur av i (key @ CHR '')'' # rest) =
     (case dict (rev acc @ key) of
        None \<Rightarrow> Inl (KeyError (rev acc @ key))
      | Some v \<Rightarrow> format_from (Some dict) Conv (Some v) True (i + length key + 1) rest)"
  by (induction key arbitrary: acc i) (auto split: option.splits)

lemma format_from_unclosed:
  "CHR '')'' \<notin> set junk \<Longrightarrow>
   format_from (Some dict) (Key n acc) cur av i junk = Inl (ValueError ''incomplete format key'')"
  by (induction junk arbitrary: n acc i) auto

lemma substituteParameters_dom:
  assumes "substituteParameters keys PARAMS kwargs = Inr lp"
  shows "dom lp = dom (PARAMS ++ kwargs)"
proof (cases "(PARAMS ++ kwargs) ''outfile''")
  case None
  with assms show ?thesis by (simp add: substituteParameters_def Let_def)
next
  case (Some outfile)
  with assms have "substitute_loop outfile (keys (PARAMS ++ kwargs)) (PARAMS ++ kwargs) = Inr lp"
    by (simp add: substituteParameters_def Let_def)
  then show ?thesis by (rule substitute_loop_dom)
qed

lemma format_dict_missing_key:
  assumes pre: "format_dict pre lp = Inr s"
    and key: "CHR ''('' \<notin> set key" "CHR '')'' \<notin> set key" "lp key = None"
  shows "format_dict (pre @ ''%('' @ key @ '')'' @ rest) lp = Inl (KeyError key)"
proof -
  from pre have "format_from (Some lp) Text None True 0 pre = Inr s"
    by (simp add: format_dict_def)
  from format_from_append [OF this] obtain cur' av' where
    app: "\<And>r. format_from (Some lp) Text None True 0 (pre @ r) =
            prepend s (format_from (Some lp) Text cur' av' (0 + length pre) r)"
    by blast
  have "format_from (Some lp) Text cur' av' (0 + length pre) (''%('' @ key @ '')'' @ rest) =
          format_from (Some lp) (Key 1 []) cur' av' (0 + length pre + 1 + 1) (key @ CHR '')'' # rest)"
    by simp
  also have "\<dots> = Inl (KeyError key)"
    using key(3) by (simp add: format_from_key [OF key(1,2)])
  finally show ?thesis
    unfolding format_dict_def app by (simp add: prepend_def)
qed

lemma format_dict_unclosed_key:
  assumes pre: "format_dict pre lp = Inr s" and junk: "CHR '')'' \<notin> set junk"
  shows "format_dict (pre @ ''%('' @ junk) lp = Inl (ValueError ''incomplete format key'')"
proof -
  from pre have "format_from (Some lp) Text None True 0 pre = Inr s"
    by (simp add: format_dict_def)
  from format_from_append [OF this] obtain cur' av' where
    app: "\<And>r. format_from (Some lp) Text None True 0 (pre @ r) =
            prepend s (format_from (Some lp) Text cur' av' (0 + length pre) r)"
    by blast
  have "format_from (Some lp) Text cur' av' (0 + length pre) (''%('' @ junk) =
          format_from (Some lp) (Key 1 []) cur' av' (0 + length pre + 1 + 1) junk"
    by simp
  also have "\<dots> = Inl (ValueError ''incomplete format key'')"
    by (rule format_from_unclosed [OF junk])
  finally show ?thesis
    unfolding format_dict_def app by (simp add: prepend_def)
qed

lemma format_dict_echo:
  "lp ''x'' = Some (PStr ''hi'') \<Longrightarrow> format_dict ''echo %(x)s'' lp = Inr ''echo hi''"
  by (simp add: format_dict_def convert_def is_spec_char_def prepend_def)

lemma clean_statement_echo: "clean_statement ''echo hi'' = ''echo hi''"
  by (simp add: clean_statement_def drop_semicolon_def strip_def join_lines_def
      collapse_tabs_def isspace_def)

text \<open>
  Claim C5. The template \<^verbatim>\<open>"echo %(x)s"\<close> with the option \<^verbatim>\<open>x="hi"\<close> (in the mapping that
  parameter substitution returns) produces the statement \<^verbatim>\<open>"echo hi"\<close>. When the
  template reaches, after a text \<open>pre\<close> that formats without error, a placeholder
  \<^verbatim>\<open>%(key)\<close> whose key is not in the merged options, the call fails with the
  \<^verbatim>\<open>KeyError\<close> whose message is "could not find", the key as \<^verbatim>\<open>repr\<close> prints it, and
  "in dictionaries". A malformed placeholder fails differently: a key that is never
  closed raises \<^verbatim>\<open>ValueError\<close> with the interpreter's text "incomplete format key" and
  the statement.
\<close>

theorem buildStatement_interpolation:
  "(kwargs ''statement'' = Some (PStr ''echo %(x)s'') \<and>
    substituteParameters keys PARAMS kwargs = Inr lp \<and> lp ''x'' = Some (PStr ''hi'')
    \<longrightarrow> buildStatement keys PARAMS kwargs = Inr ''echo hi'')
   \<and> (kwargs ''statement'' = Some (PStr (pre @ ''%('' @ key @ '')'' @ rest)) \<and>
    substituteParameters keys PARAMS kwargs = Inr lp \<and> format_dict pre lp = Inr s \<and>
    CHR ''('' \<notin> set key \<and> CHR '')'' \<notin> set key \<and> key \<notin> dom (PARAMS ++ kwargs)
    \<longrightarrow> buildStatement keys PARAMS kwargs = Inl (KeyError (could_not_find_msg key)))
   \<and> (kwargs ''statement'' = Some (PStr (pre @ ''%('' @ junk)) \<and>
    substituteParameters keys PARAMS kwargs = Inr lp \<and> format_dict pre lp = Inr s \<and>
    CHR '')'' \<notin> set junk
    \<longrightarrow> buildStatement keys PARAMS kwargs =
          Inl (ValueError (''Error when creating command: incomplete format key, statement = '' @
                 pre @ ''%('' @ junk)))"
proof (intro conjI impI, goal_cases)
  case 1
  then have "format_dict ''echo %(x)s'' lp = Inr ''echo hi''"
    by (intro format_dict_echo) simp
  with 1 show ?case
    by (simp add: buildStatement_def clean_statement_echo)
next
  case 2
  then have sub: "substituteParameters keys PARAMS kwargs = Inr lp" by simp
  have d: "dom lp = dom (PARAMS ++ kwargs)" by (rule substituteParameters_dom [OF sub])
  from 2 have k: "key \<notin> dom (PARAMS ++ kwargs)" by (elim conjE)
  have "key \<notin> dom lp" unfolding d by (rule k)
  then have "lp key = None" by (simp only: domIff not_not)
  with 2 have "format_dict (pre @ ''%('' @ key @ '')'' @ rest) lp = Inl (KeyError key)"
    by (intro format_dict_missing_key) simp_all
  with 2 show ?case
    by (simp add: buildStatement_def)
next
  case 3
  then have "format_dict (pre @ ''%('' @ junk) lp = Inl (ValueError ''incomplete format key'')"
    by (intro format_dict_unclosed_key) simp_all
  with 3 show ?case
    by (simp add: buildStatement_def)
qed

theorem buildStatement_interpolation_witness:
  "buildStatement (\<lambda>d. []) Map.empty
     [''statement'' \<mapsto> PStr ''echo %(x)s'', ''x'' \<mapsto> PStr ''hi''] = Inr ''echo hi''
   \<and> buildStatement (\<lambda>d. []) Map.empty
     [''statement'' \<mapsto> PStr ''echo %(x)s %(y)s'', ''x'' \<mapsto> PStr ''hi''] =
       Inl (KeyError (''Error when creating command: could not find '' @ [CHR 0x27] @ ''y'' @
              [CHR 0x27] @ '' in dictionaries''))
   \<and> buildStatement (\<lambda>d. []) Map.empty
     [''statement'' \<mapsto> PStr ''echo %(x)s %(y'', ''x'' \<mapsto> PStr ''hi''] =
       Inl (ValueError ''Error when creating command: incomplete format key, statement = echo %(x)s %(y'')"
proof -
  let ?keys = "\<lambda>d::pydict. [] :: string list"
  let ?A = "[''statement'' \<mapsto> PStr ''echo %(x)s'', ''x'' \<mapsto> PStr ''hi'']"
  let ?B = "[''statement'' \<mapsto> PStr ''echo %(x)s %(y)s'', ''x'' \<mapsto> PStr ''hi'']"
  let ?C = "[''statement'' \<mapsto> PStr ''echo %(x)s %(y'', ''x'' \<mapsto> PStr ''hi'']"
  have subst: "\<And>kw. kw ''outfile'' = None \<Longrightarrow>
                  substituteParameters ?keys Map.empty kw = Inr kw"
    by (simp add: substituteParameters_def)
  have pre: "\<And>lp. lp ''x'' = Some (PStr ''hi'') \<Longrightarrow> format_dict ''echo %(x)s '' lp = Inr ''echo hi ''"
    by (simp add: format_dict_def convert_def is_spec_char_def prepend_def)
  have a: "?A ''statement'' = Some (PStr ''echo %(x)s'') \<and>
    substituteParameters ?keys Map.empty ?A = Inr ?A \<and> ?A ''x'' = Some (PStr ''hi'')"
    by (simp add: subst)
  have b: "?B ''statement'' = Some (PStr (''echo %(x)s '' @ ''%('' @ ''y'' @ '')'' @ ''s'')) \<and>
    substituteParameters ?keys Map.empty ?B = Inr ?B \<and> format_dict ''echo %(x)s '' ?B = Inr ''echo hi '' \<and>
    CHR ''('' \<notin> set ''y'' \<and> CHR '')'' \<notin> set ''y'' \<and> ''y'' \<notin> dom (Map.empty ++ ?B)"
    by (simp add: subst pre)
  have c: "?C ''statement'' = Some (PStr (''echo %(x)s '' @ ''%('' @ ''y'')) \<and>
    substituteParameters ?keys Map.empty ?C = Inr ?C \<and> format_dict ''echo %(x)s '' ?C = Inr ''echo hi '' \<and>
    CHR '')'' \<notin> set ''y''"
    by (simp add: subst pre)
  note A = mp [OF conjunct1 [OF buildStatement_interpolation] a]
  note B = mp [OF conjunct1 [OF conjunct2 [OF buildStatement_interpolation]] b]
  note C = mp [OF conjunct2 [OF conjunct2 [OF buildStatement_interpolation]] c]
  have msg: "could_not_find_msg ''y'' = ''Error when creating command: could not find '' @
      [CHR 0x27] @ ''y'' @ [CHR 0x27] @ '' in dictionaries''"
    by (simp add: could_not_find_msg_def py_repr_str_def repr_char_def Let_def)
  from A B C show ?thesis
    by (simp only: msg append.simps simp_thms)
qed

text \<open>Lemmas for the chain of statements: text without the special characters.\<close>

lemma format_from_plain:
  "CHR ''%'' \<notin> set pre \<Longrightarrow>
   format_from d Text cur av i (pre @ rest) =
     prepend pre (format_from d Text cur av (i + length pre) rest)"
  by (induction pre arbitrary: i) (auto simp: prepend_Nil prepend_prepend)

lemma temp_name:
  assumes "CHR ''%'' \<notin> set tmp"
  shows "format_value (tmp @ ''_%i'') (PInt n) = Inr (tmp @ ''_'' @ show_int n)"
proof -
  have "format_from None Text (Some (PInt n)) True (0 + length tmp) ''_%i'' = Inr (''_'' @ show_int n)"
    by (simp add: convert_def is_spec_char_def prepend_def)
  then show ?thesis
    unfolding format_value_def format_from_plain [OF assms] by (simp add: prepend_def)
qed

lemma replace_from_plain:
  "CHR ''@'' \<notin> set xs \<Longrightarrow>
   replace_from (CHR ''@'' # p) repl 0 (xs @ ys) = xs @ replace_from (CHR ''@'' # p) repl 0 ys"
  by (induction xs) auto

lemma strip_id:
  assumes "s \<noteq> []" "\<not> isspace (hd s)" "\<not> isspace (last s)"
  shows "strip s = s"
proof -
  from assms have 1: "dropWhile isspace s = s" by (cases s) simp_all
  from assms have "rev s \<noteq> []" "\<not> isspace (hd (rev s))" by (simp_all add: hd_rev)
  then have 2: "dropWhile isspace (rev s) = rev s" by (cases "rev s") simp_all
  show ?thesis by (simp add: strip_def 1 2)
qed

lemma show_int_1_2: "show_int 1 = ''1''" "show_int 2 = ''2''"
  by (simp_all add: show_int_def show_nat.simps digit_char_def)

text \<open>
  Claim C8. For \<^verbatim>\<open>joinStatements(["step1 @OUT@", "step2 @IN@ @OUT@"], "in.txt")\<close> and
  every name \<open>tmp\<close> that \<^verbatim>\<open>getTempFilename()\<close> returns (not empty, and without a
  percent sign, a backslash or an at sign, which formatting and substitution would
  interpret), the result is the first step with \<^verbatim>\<open>@OUT@\<close> replaced by \<open>tmp_1\<close>, the
  second step with \<^verbatim>\<open>@IN@\<close> replaced by the same name \<open>tmp_1\<close> and \<^verbatim>\<open>@OUT@\<close> by
  \<open>tmp_2\<close>, and the cleanup command \<^verbatim>\<open>rm -f tmp*\<close>, which removes every file whose
  name starts with \<open>tmp\<close>; consecutive parts are separated by \<^verbatim>\<open>; checkpoint ; \<close>.
  The first statement has no \<^verbatim>\<open>@IN@\<close>, so \<^verbatim>\<open>in.txt\<close> does not occur.
\<close>

theorem joinStatements_chain:
  assumes "tmp \<noteq> []" "CHR ''%'' \<notin> set tmp" "CHR 0x5C \<notin> set tmp" "CHR ''@'' \<notin> set tmp"
  shows "joinStatements tmp [''step1 @OUT@'', ''step2 @IN@ @OUT@''] ''in.txt'' =
           Inr (''step1 '' @ tmp @ ''_1'' @ ''; checkpoint ; '' @
                ''step2 '' @ tmp @ ''_1'' @ '' '' @ tmp @ ''_2'' @ ''; checkpoint ; '' @
                ''rm -f '' @ tmp @ ''*'')"
proof -
  let ?n1 = "tmp @ ''_1''" and ?n2 = "tmp @ ''_2''"
  have n1: "format_value (tmp @ ''_%i'') (PInt 1) = Inr ?n1"
    and n2: "format_value (tmp @ ''_%i'') (PInt 2) = Inr ?n2"
    using temp_name [OF assms(2)] by (simp_all add: show_int_1_2)
  have in1: "re_sub_literal ''@IN@'' ''in.txt'' ''step1 @OUT@'' = Inr ''step1 @OUT@''"
    by (simp add: re_sub_literal_def)
  have out1: "re_sub_literal ''@OUT@'' ?n1 ''step1 @OUT@'' = Inr (''step1 '' @ ?n1)"
    using assms(3) by (simp add: re_sub_literal_def)
  have in2: "re_sub_literal ''@IN@'' ?n1 ''step2 @IN@ @OUT@'' = Inr (''step2 '' @ tmp @ ''_1 @OUT@'')"
    using assms(3) by (simp add: re_sub_literal_def)
  have "replace_from ''@OUT@'' ?n2 0 (tmp @ ''_1 @OUT@'') = tmp @ ''_1 '' @ ?n2"
    by (simp add: replace_from_plain [OF assms(4)])
  then have out2: "re_sub_literal ''@OUT@'' ?n2 (''step2 '' @ tmp @ ''_1 @OUT@'') =
      Inr (''step2 '' @ tmp @ ''_1 '' @ ?n2)"
    using assms(3) by (simp add: re_sub_literal_def)
  have s1: "drop_semicolon (strip (''step1 '' @ ?n1)) = ''step1 '' @ ?n1"
    by (simp add: strip_id isspace_def drop_semicolon_def)
  have s2: "drop_semicolon (strip (''step2 '' @ tmp @ ''_1 '' @ ?n2)) = ''step2 '' @ tmp @ ''_1 '' @ ?n2"
    by (simp add: strip_id isspace_def drop_semicolon_def)
  have "join_steps (tmp @ ''_%i'') ''in.txt'' 0 [''step1 @OUT@'', ''step2 @IN@ @OUT@''] =
          Inr [''step1 '' @ ?n1, ''step2 '' @ tmp @ ''_1 '' @ ?n2]"
    by (simp add: n1 n2 in1 [simplified] out1 [simplified] in2 [simplified] out2 [simplified]
        s1 [simplified] s2 [simplified])
  then show ?thesis
    using assms(1) by (simp add: joinStatements_def)
qed

theorem joinStatements_chain_witness:
  "joinStatements ''/tmp/ctmpAb3'' [''step1 @OUT@'', ''step2 @IN@ @OUT@''] ''in.txt'' =
     Inr ''step1 /tmp/ctmpAb3_1; checkpoint ; step2 /tmp/ctmpAb3_1 /tmp/ctmpAb3_2; checkpoint ; rm -f /tmp/ctmpAb3*''"
proof -
  have "''/tmp/ctmpAb3'' \<noteq> []" "CHR ''%'' \<notin> set ''/tmp/ctmpAb3''"
    "CHR 0x5C \<notin> set ''/tmp/ctmpAb3''" "CHR ''@'' \<notin> set ''/tmp/ctmpAb3''"
    by simp_all
  from joinStatements_chain [OF this] show ?thesis by simp
qed

section \<open>Properties of the cluster dispatch and of pickled calls\<close>

lemma bulk_indices_example: "bulk_indices 1 10 2 = [1, 3, 5, 7, 9]"
  by code_simp

text \<open>
  Claim C2, as the code has it. With \<^verbatim>\<open>job_array = (0, 10, 2)\<close> the bulk submission is
  called with \<open>start + 1 = 1\<close>, \<open>end = 10\<close> and the step 2; the scheduler's closed
  one-based interval from 1 to 10 with step 2 has the five indices 1, 3, 5, 7, 9, which
  are the zero-based logical indices 0, 2, 4, 6, 8 plus one. The jobs are then
  synchronised and their output is read.
\<close>

theorem job_array_indices:
  "run_array_job (PTuple [PInt 0, PInt 10, PInt 2]) job_path stdout_path stderr_path =
     ([RunBulkJobs job_path (0 + 1) 10 2,
       Synchronize (map Task (bulk_indices (0 + 1) 10 2)) True,
       GetStdoutStderr stdout_path stderr_path], Inr ())
   \<and> bulk_indices (0 + 1) 10 2 = [1, 3, 5, 7, 9]
   \<and> length (bulk_indices (0 + 1) 10 2) = 5
   \<and> map (\<lambda>i. i - 1) (bulk_indices (0 + 1) 10 2) = [0, 2, 4, 6, 8]"
  by (simp add: run_array_job_def unpack3_def seq_def emit_def raise_def bulk_indices_example)

text \<open>
  Against claim C2 as stated: the array job of \<^verbatim>\<open>(0, 10, 2)\<close> has the job indices
  1, 3, 5, 7, 9, and these are not six indices.
\<close>

theorem job_array_six_indices_counterexample:
  "fst (run_array_job (PTuple [PInt 0, PInt 10, PInt 2]) ''job'' ''out'' ''err'') =
     [RunBulkJobs ''job'' 1 10 2,
      Synchronize [Task 1, Task 3, Task 5, Task 7, Task 9] True,
      GetStdoutStderr ''out'' ''err'']
   \<and> length (bulk_indices (0 + 1) 10 2) \<noteq> 6"
  by (simp add: run_array_job_def unpack3_def seq_def emit_def raise_def bulk_indices_example)

text \<open>
  Against claim C3 as stated: two statements are sent to the cluster and the first job
  exits with status 1. \<^verbatim>\<open>run\<close> raises \<^verbatim>\<open>PipelineError\<close> after reading the output of the
  first job: the second job is not waited for, no job script is unlinked, and the job
  template is not deleted.
\<close>

theorem batch_failure_counterexample:
  "run failing_batch_env =
     ([CreateJobTemplate,
       NativeSpecification ''-V -q all.q -p -10 -N ruffus  -l mem_free=4G'',
       CreateTempFile ''/w/ctmp0'',
       WriteJobScript ''/w/ctmp0'' ''ruffus'' 4000000000 ''first'',
       RunJob ''/w/ctmp0'',
       CreateTempFile ''/w/ctmp1'',
       WriteJobScript ''/w/ctmp1'' ''ruffus'' 4000000000 ''second'',
       RunJob ''/w/ctmp1'',
       Synchronize [Job 0, Job 1] False,
       Wait (Job 0),
       GetStdoutStderr ''/w/ctmp0.stdout'' ''/w/ctmp0.stderr''],
      Inl (PipelineError (pipeline_error_msg 1 [] ''first'')))"
  by code_simp

text \<open>
  Against claim C7 as stated: the function \<^verbatim>\<open>fail\<close> raises \<^verbatim>\<open>ValueError\<close>;
  \<^verbatim>\<open>run_pickled\<close> raises it too and the payload file is still there.
\<close>

theorem run_pickled_exception_counterexample:
  "snd (run_pickled example_modules [''/code/tasks'', ''fail'', ''/shared/ctmpArgs''] example_files)
     = Inl (ValueError ''bad input'')
   \<and> fst (run_pickled example_modules [''/code/tasks'', ''fail'', ''/shared/ctmpArgs''] example_files)
       ''/shared/ctmpArgs'' = Some ([PInt 1], Map.empty)"
  by (simp add: run_pickled_def example_modules_def example_files_def basename_def)

text \<open>Sequencing of actions, and the events that the parts of \<^verbatim>\<open>run\<close> can cause.\<close>

lemma seq_Inr: "seq (evs, Inr x) f = (evs @ fst (f x), snd (f x))"
  by (simp add: seq_def split: prod.splits)

lemma seq_Inl: "seq (evs, Inl ex) f = (evs, Inl ex)"
  by (simp add: seq_def)

lemma seq_emit: "seq (emit ev) f = (ev # fst (f ()), snd (f ()))"
  by (simp add: emit_def seq_Inr)

lemmas action_simps = seq_Inr seq_Inl emit_def raise_def ret_def lift_def

lemma seq_events:
  assumes "\<forall>ev \<in> set (fst m). P ev" "\<And>x. \<forall>ev \<in> set (fst (f x)). P ev"
  shows "\<forall>ev \<in> set (fst (seq m f)). P ev"
proof (cases m)
  case (Pair evs r)
  show ?thesis
  proof (cases r)
    case (Inl ex)
    with Pair assms(1) show ?thesis by (simp add: seq_Inl)
  next
    case (Inr x)
    with Pair assms(1) assms(2) [of x] show ?thesis by (auto simp: seq_Inr)
  qed
qed

lemma collect_ok_events:
  "\<forall>ev \<in> set (fst (collectSingleJobFromCluster e job st so se jp ie)).
     ev = Wait job \<or> ev = GetStdoutStderr so se \<or> ev = Unlink jp \<or> is_warning ev"
  by (auto simp: collectSingleJobFromCluster_def action_simps
      split: wait_outcome.splits option.splits if_splits)

lemma collect_jobs_events:
  "\<forall>ev \<in> set (fst (collect_jobs e ie jobs)).
     (\<exists>j \<in> set jobs. ev = Wait (fst j)) \<or> (\<exists>so se. ev = GetStdoutStderr so se) \<or>
     (\<exists>jp. ev = Unlink jp) \<or> is_warning ev"
proof (induction jobs)
  case Nil
  then show ?case by (simp add: ret_def)
next
  case (Cons j jobs)
  obtain job st jp so se where j: "j = (job, st, jp, so, se)" by (cases j)
  show ?case
    unfolding j collect_jobs.simps
    by (rule seq_events) (use collect_ok_events [of e job st so se jp ie] Cons.IH in auto)
qed

lemma collect_failing_job:
  assumes "wait_result e job = Exited n" "n \<noteq> 0"
  shows "collectSingleJobFromCluster e job st so se jp False =
           ([Wait job, GetStdoutStderr so se],
            Inl (PipelineError (pipeline_error_msg n (stderr_text e se) st)))"
  using assms by (simp add: collectSingleJobFromCluster_def action_simps)

lemma collect_jobs_first_failure:
  assumes "snd (collect_jobs e False pre) = Inr ()" "wait_result e job = Exited n" "n \<noteq> 0"
  shows "collect_jobs e False (pre @ (job, st, jp, so, se) # post) =
           (fst (collect_jobs e False pre) @ [Wait job, GetStdoutStderr so se],
            Inl (PipelineError (pipeline_error_msg n (stderr_text e se) st)))"
  using assms(1)
proof (induction pre)
  case Nil
  show ?case
    by (simp add: collect_failing_job [OF assms(2,3)] seq_Inl ret_def)
next
  case (Cons j pre)
  obtain job' st' jp' so' se' where j: "j = (job', st', jp', so', se')" by (cases j)
  obtain evs r where c: "collectSingleJobFromCluster e job' st' so' se' jp' False = (evs, r)"
    by (cases "collectSingleJobFromCluster e job' st' so' se' jp' False")
  show ?case
  proof (cases r)
    case (Inl ex)
    with Cons.prems j c show ?thesis by (simp add: seq_Inl)
  next
    case (Inr u)
    with Cons.prems j c have "snd (collect_jobs e False pre) = Inr ()"
      by (simp add: seq_Inr)
    from Cons.IH [OF this] Inr j c show ?thesis
      by (simp add: seq_Inr)
  qed
qed

lemma setupJob_events:
  assumes "P CreateJobTemplate" "\<And>s. P (NativeSpecification s)"
  shows "\<forall>ev \<in> set (fst (setupJob PARAMS options job_memory job_name)). P ev"
  using assms
  by (auto simp: setupJob_def action_simps Let_def split: list.splits option.splits sum.splits)

lemma buildJobScript_events:
  assumes "\<And>p. P (CreateTempFile p)" "\<And>p n b s. P (WriteJobScript p n b s)"
  shows "\<forall>ev \<in> set (fst (buildJobScript e k ipe statement job_memory job_name)). P ev"
  using assms
  by (auto simp: buildJobScript_def action_simps Let_def split: sum.splits)

lemma submit_jobs_events:
  assumes "\<And>p. P (CreateTempFile p)" "\<And>p n b s. P (WriteJobScript p n b s)" "\<And>p. P (RunJob p)"
  shows "\<forall>ev \<in> set (fst (submit_jobs e ipe job_memory job_name k sts)). P ev"
proof (induction sts arbitrary: k)
  case Nil
  show ?case by (simp add: ret_def)
next
  case (Cons st sts)
  show ?case
    unfolding submit_jobs.simps
  proof (rule seq_events)
    show "\<forall>ev \<in> set (fst (buildJobScript e k ipe st job_memory job_name)). P ev"
      by (rule buildJobScript_events) (rule assms)+
  next
    fix x :: "string \<times> string \<times> string"
    obtain jp so se where x: "x = (jp, so, se)" by (cases x)
    have "\<forall>ev \<in> set (fst (seq (emit (RunJob jp)) (\<lambda>_.
            seq (submit_jobs e ipe job_memory job_name (k + 1) sts) (\<lambda>jobs.
              ret ((Job k, st, jp, so, se) # jobs))))). P ev"
    proof (rule seq_events)
      show "\<forall>ev \<in> set (fst (emit (RunJob jp))). P ev" by (simp add: emit_def assms(3))
    next
      fix u :: unit
      show "\<forall>ev \<in> set (fst (seq (submit_jobs e ipe job_memory job_name (k + 1) sts) (\<lambda>jobs.
              ret ((Job k, st, jp, so, se) # jobs)))). P ev"
        by (rule seq_events) (use Cons.IH in \<open>simp_all add: ret_def\<close>)
    qed
    then show "\<forall>ev \<in> set (fst (case x of (job_path, stdout_path, stderr_path) \<Rightarrow>
          seq (emit (RunJob job_path)) (\<lambda>_.
            seq (submit_jobs e ipe job_memory job_name (k + 1) sts) (\<lambda>jobs.
              ret ((Job k, st, job_path, stdout_path, stderr_path) # jobs))))). P ev"
      by (simp add: x)
  qed
qed

text \<open>The jobs of one call have different identifiers.\<close>

lemma submit_jobs_ids:
  "submit_jobs e ipe jm jn k sts = (evs, Inr jobs) \<Longrightarrow>
   distinct (map fst jobs) \<and> (\<forall>j \<in> set jobs. \<exists>i. k \<le> i \<and> fst j = Job i)"
proof (induction sts arbitrary: k evs jobs)
  case Nil
  then show ?case by (simp add: ret_def)
next
  case (Cons st sts)
  obtain evs1 r1 where b: "buildJobScript e k ipe st jm jn = (evs1, r1)"
    by (cases "buildJobScript e k ipe st jm jn")
  from Cons.prems b obtain jp so se where r1: "r1 = Inr (jp, so, se)"
    by (cases r1) (auto simp: action_simps)
  obtain evs2 r2 where s: "submit_jobs e ipe jm jn (k + 1) sts = (evs2, r2)"
    by (cases "submit_jobs e ipe jm jn (k + 1) sts")
  from Cons.prems b r1 s obtain jobs' where r2: "r2 = Inr jobs'"
    by (cases r2) (auto simp: action_simps)
  from Cons.prems b r1 s r2 have jobs: "jobs = (Job k, st, jp, so, se) # jobs'"
    by (auto simp: action_simps)
  from Cons.IH [OF s [unfolded r2]] have
    IH: "distinct (map fst jobs')" "\<forall>j \<in> set jobs'. \<exists>i. k + 1 \<le> i \<and> fst j = Job i"
    by simp_all
  from IH(2) have "Job k \<notin> fst ` set jobs'" by force
  moreover from IH(2) have "\<forall>j \<in> set jobs'. \<exists>i. k \<le> i \<and> fst j = Job i"
    by (meson add_leD1)
  ultimately show ?case using IH(1) jobs by simp
qed

text \<open>
  Claim C3, as the code has it. When a batch is sent to the cluster (the statements are
  built, it is no dry run, the job template is set up and all jobs are submitted) and
  the job \<open>job\<close> is the first whose exit status is not 0, with the jobs \<open>pre\<close> before
  it collected without an exception and errors not ignored, then \<^verbatim>\<open>run\<close> raises
  \<^verbatim>\<open>PipelineError\<close> for that job right after reading its stdout and stderr: the events
  end there. The job template is not deleted and the jobs after \<open>job\<close> are not waited
  for, so they are not collected.
\<close>

theorem batch_failure_stops_collection:
  assumes "py_iter (py_get options ''statements'' PNone) = Inr sts"
    and "build_statements (dict_keys e) (global_PARAMS e) options sts = Inr (statement_list, options')"
    and "\<not> truthy (py_get options' ''dryrun'' (PBool False))"
    and "setupJob (global_PARAMS e) options' job_memory job_name = (setup_events, Inr ())"
    and "submit_jobs e ipe job_memory job_name 0 statement_list = (submit_events, Inr jobs)"
    and "jobs = pre @ (job, statement, job_path, stdout_path, stderr_path) # post"
    and "snd (collect_jobs e False pre) = Inr ()"
    and "wait_result e job = Exited n" and "n \<noteq> 0"
  shows "run_cluster_batch e options job_memory job_name ipe False =
           (setup_events @ submit_events @ [Synchronize (map fst jobs) False] @
            fst (collect_jobs e False pre) @ [Wait job, GetStdoutStderr stdout_path stderr_path],
            Inl (PipelineError (pipeline_error_msg n (stderr_text e stderr_path) statement)))
         \<and> DeleteJobTemplate \<notin> set (fst (run_cluster_batch e options job_memory job_name ipe False))
         \<and> (\<forall>j \<in> set post.
               Wait (fst j) \<notin> set (fst (run_cluster_batch e options job_memory job_name ipe False)))"
proof -
  let ?failure = "PipelineError (pipeline_error_msg n (stderr_text e stderr_path) statement)"
  let ?trace = "setup_events @ submit_events @ [Synchronize (map fst jobs) False] @
            fst (collect_jobs e False pre) @ [Wait job, GetStdoutStderr stdout_path stderr_path]"
  have collect: "collect_jobs e False jobs =
      (fst (collect_jobs e False pre) @ [Wait job, GetStdoutStderr stdout_path stderr_path],
       Inl ?failure)"
    unfolding assms(6) by (rule collect_jobs_first_failure [OF assms(7,8,9)])
  have run: "run_cluster_batch e options job_memory job_name ipe False = (?trace, Inl ?failure)"
    using assms(1-5) collect by (simp add: run_cluster_batch_def action_simps)
  have template: "\<forall>ev \<in> set setup_events. ev \<noteq> DeleteJobTemplate \<and> (\<forall>j. ev \<noteq> Wait j)"
    using setupJob_events [of "\<lambda>ev. ev \<noteq> DeleteJobTemplate \<and> (\<forall>j. ev \<noteq> Wait j)"
        "global_PARAMS e" options' job_memory job_name] assms(4)
    by simp
  have submit: "\<forall>ev \<in> set submit_events. ev \<noteq> DeleteJobTemplate \<and> (\<forall>j. ev \<noteq> Wait j)"
    using submit_jobs_events [of "\<lambda>ev. ev \<noteq> DeleteJobTemplate \<and> (\<forall>j. ev \<noteq> Wait j)"
        e ipe job_memory job_name 0 statement_list] assms(5)
    by simp
  have before: "\<forall>ev \<in> set (fst (collect_jobs e False pre)).
      ev \<noteq> DeleteJobTemplate \<and> (\<forall>j. ev = Wait j \<longrightarrow> j \<in> fst ` set pre)"
    using collect_jobs_events [of e False pre] by auto
  have no_delete: "DeleteJobTemplate \<notin> set ?trace"
    using template submit before by auto
  have later: "\<forall>j \<in> set post. Wait (fst j) \<notin> set ?trace"
  proof
    fix j assume j: "j \<in> set post"
    have "distinct (map fst jobs)"
      using submit_jobs_ids [OF assms(5)] by simp
    with j have "fst j \<noteq> job" "fst j \<notin> fst ` set pre"
      unfolding assms(6) by auto
    with template submit before show "Wait (fst j) \<notin> set ?trace" by auto
  qed
  from run no_delete later show ?thesis by simp
qed

lemmas statement_simps = buildStatement_def substituteParameters_def format_dict_def
  clean_statement_def drop_semicolon_def strip_def join_lines_def collapse_tabs_def isspace_def
  convert_def is_spec_char_def prepend_def Let_def

text \<open>The batch of two statements whose first job exits with status 1.\<close>

theorem batch_failure_stops_collection_witness:
  "run_cluster_batch failing_batch_env
     (example_PARAMS(''statements'' \<mapsto> PList [PStr ''first'', PStr ''second'']))
     (PStr ''4G'') ''ruffus'' True False =
     ([CreateJobTemplate,
       NativeSpecification ''-V -q all.q -p -10 -N ruffus  -l mem_free=4G'',
       CreateTempFile ''/w/ctmp0'',
       WriteJobScript ''/w/ctmp0'' ''ruffus'' 4000000000 ''first'',
       RunJob ''/w/ctmp0'',
       CreateTempFile ''/w/ctmp1'',
       WriteJobScript ''/w/ctmp1'' ''ruffus'' 4000000000 ''second'',
       RunJob ''/w/ctmp1'',
       Synchronize [Job 0, Job 1] False,
       Wait (Job 0),
       GetStdoutStderr ''/w/ctmp0.stdout'' ''/w/ctmp0.stderr''],
      Inl (PipelineError (pipeline_error_msg 1 [] ''first'')))
   \<and> DeleteJobTemplate \<notin> set (fst (run_cluster_batch failing_batch_env
         (example_PARAMS(''statements'' \<mapsto> PList [PStr ''first'', PStr ''second'']))
         (PStr ''4G'') ''ruffus'' True False))
   \<and> Wait (Job 1) \<notin> set (fst (run_cluster_batch failing_batch_env
         (example_PARAMS(''statements'' \<mapsto> PList [PStr ''first'', PStr ''second'']))
         (PStr ''4G'') ''ruffus'' True False))"
proof -
  let ?e = failing_batch_env
  let ?options = "example_PARAMS(''statements'' \<mapsto> PList [PStr ''first'', PStr ''second''])"
  let ?options' = "?options(''statement'' \<mapsto> PStr ''second'')"
  let ?job0 = "(Job 0, ''first'', ''/w/ctmp0'', ''/w/ctmp0.stdout'', ''/w/ctmp0.stderr'')"
  let ?job1 = "(Job 1, ''second'', ''/w/ctmp1'', ''/w/ctmp1.stdout'', ''/w/ctmp1.stderr'')"
  let ?template_events = "[CreateJobTemplate,
       NativeSpecification ''-V -q all.q -p -10 -N ruffus  -l mem_free=4G'']"
  let ?submit = "[CreateTempFile ''/w/ctmp0'',
       WriteJobScript ''/w/ctmp0'' ''ruffus'' 4000000000 ''first'',
       RunJob ''/w/ctmp0'',
       CreateTempFile ''/w/ctmp1'',
       WriteJobScript ''/w/ctmp1'' ''ruffus'' 4000000000 ''second'',
       RunJob ''/w/ctmp1'']"
  have env: "dict_keys ?e = (\<lambda>d. [])" "global_PARAMS ?e = example_PARAMS"
    "wait_result ?e (Job 0) = Exited 1" "stderr_text ?e ''/w/ctmp0.stderr'' = []"
    "temp_file ?e = (\<lambda>k. ''/w/ctmp'' @ show_nat k)" "human2bytes ?e = (\<lambda>v. Inr 4000000000)"
    by (simp_all add: failing_batch_env_def example_env_def)
  have 1: "py_iter (py_get ?options ''statements'' PNone) = Inr [PStr ''first'', PStr ''second'']"
    by (simp add: py_get_def)
  have 2: "build_statements (dict_keys ?e) (global_PARAMS ?e) ?options [PStr ''first'', PStr ''second'']
             = Inr ([''first'', ''second''], ?options')"
    by (simp add: env example_PARAMS_def statement_simps)
  have 3: "\<not> truthy (py_get ?options' ''dryrun'' (PBool False))"
    by (simp add: py_get_def example_PARAMS_def)
  have 4: "setupJob (global_PARAMS ?e) ?options' (PStr ''4G'') ''ruffus'' = (?template_events, Inr ())"
    unfolding env by code_simp
  have 5: "submit_jobs ?e True (PStr ''4G'') ''ruffus'' 0 [''first'', ''second''] =
             (?submit, Inr [?job0, ?job1])"
    by code_simp
  have 6: "[?job0, ?job1] = [] @ ?job0 # [?job1]" by simp
  have 7: "snd (collect_jobs ?e False []) = Inr ()" by (simp add: ret_def)
  have 9: "(1::int) \<noteq> 0" by simp
  from batch_failure_stops_collection [OF 1 2 3 4 5 6 7 env(3) 9]
  show ?thesis by (simp add: env ret_def)
qed

text \<open>
  Claim C7, as the code has it. When the module, the function and the payload file are
  found, the payload file is removed by \<^verbatim>\<open>run_pickled\<close> after the function has
  returned normally (and left the file in place). When the function raises, its
  exception is raised by \<^verbatim>\<open>run_pickled\<close> and the files are as the function left them:
  \<^verbatim>\<open>run_pickled\<close> removes nothing.
\<close>

theorem run_pickled_unlinks_after_return:
  assumes "mods (basename mod_name) = Some m"
    and "attributes m func_name = Some func"
    and "fs args_file = Some (args, kwargs)"
  shows "(func args kwargs fs = (fs', None) \<and> fs' args_file \<noteq> None \<longrightarrow>
            run_pickled mods [mod_name, func_name, args_file] fs =
              (fs'(args_file := None), Inr ()))
       \<and> (func args kwargs fs = (fs', Some ex) \<longrightarrow>
            run_pickled mods [mod_name, func_name, args_file] fs = (fs', Inl ex))"
  using assms by (simp add: run_pickled_def)

text \<open>The function \<^verbatim>\<open>work\<close> returns and the file is removed; \<^verbatim>\<open>fail\<close> raises and it stays.\<close>

theorem run_pickled_unlinks_after_return_witness:
  "run_pickled example_modules [''/code/tasks'', ''work'', ''/shared/ctmpArgs''] example_files =
     (example_files(''/shared/ctmpArgs'' := None), Inr ())
   \<and> run_pickled example_modules [''/code/tasks'', ''fail'', ''/shared/ctmpArgs''] example_files =
     (example_files, Inl (ValueError ''bad input''))"
proof -
  let ?m = "\<lparr> attributes = [''fail'' \<mapsto> (\<lambda>args kwargs fs. (fs, Some (ValueError ''bad input''))),
                        ''work'' \<mapsto> (\<lambda>args kwargs (fs::files). (fs, None :: exn option))],
          dir_names = [''fail'', ''work''] \<rparr>"
  let ?work = "\<lambda>(args::pyval list) (kwargs::pydict) (fs::files). (fs, None :: exn option)"
  let ?fail = "\<lambda>(args::pyval list) (kwargs::pydict) (fs::files). (fs, Some (ValueError ''bad input''))"
  have 1: "example_modules (basename ''/code/tasks'') = Some ?m"
    by (simp add: example_modules_def basename_def)
  have w: "attributes ?m ''work'' = Some ?work" by simp
  have f: "attributes ?m ''fail'' = Some ?fail" by simp
  have 3: "example_files ''/shared/ctmpArgs'' = Some ([PInt 1], Map.empty)"
    by (simp add: example_files_def)
  have hw: "?work [PInt 1] Map.empty example_files = (example_files, None) \<and>
            example_files ''/shared/ctmpArgs'' \<noteq> None"
    by (simp add: example_files_def)
  have hf: "?fail [PInt 1] Map.empty example_files = (example_files, Some (ValueError ''bad input''))"
    by simp
  note W = mp [OF conjunct1 [OF run_pickled_unlinks_after_return
        [where mods = example_modules and mod_name = "''/code/tasks''" and m = ?m
           and func_name = "''work''" and func = ?work and fs = example_files
           and args_file = "''/shared/ctmpArgs''" and args = "[PInt 1]" and kwargs = Map.empty
           and fs' = example_files, OF 1 w 3]] hw]
  note F = mp [OF conjunct2 [OF run_pickled_unlinks_after_return
        [where mods = example_modules and mod_name = "''/code/tasks''" and m = ?m
           and func_name = "''fail''" and func = ?fail and fs = example_files
           and args_file = "''/shared/ctmpArgs''" and args = "[PInt 1]" and kwargs = Map.empty
           and fs' = example_files and ex = "ValueError ''bad input''", OF 1 f 3]] hf]
  from W F show ?thesis by (rule conjI)
qed

section \<open>Properties of \<^verbatim>\<open>run\<close>: routing, dry run and job memory\<close>

text \<open>The cluster path causes no event of a local process, the local path no other event.\<close>

lemma is_warning_not_local: "is_warning ev \<Longrightarrow> \<not> is_local_event ev"
  by (cases ev) simp_all

lemma collect_single_not_local:
  "\<forall>ev \<in> set (fst (collectSingleJobFromCluster e job st so se jp ie)). \<not> is_local_event ev"
  using collect_ok_events [of e job st so se jp ie] by (auto dest: is_warning_not_local)

lemma collect_jobs_not_local:
  "\<forall>ev \<in> set (fst (collect_jobs e ie jobs)). \<not> is_local_event ev"
  using collect_jobs_events [of e ie jobs] by (auto dest: is_warning_not_local)

lemma run_array_job_not_local:
  "\<forall>ev \<in> set (fst (run_array_job ja jp so se)). \<not> is_local_event ev"
  by (auto simp: run_array_job_def action_simps Let_def split: sum.splits prod.splits)

lemma run_cluster_batch_not_local:
  "\<forall>ev \<in> set (fst (run_cluster_batch e options jm jn ipe ie)). \<not> is_local_event ev"
proof -
  have body: "\<forall>ev \<in> set (fst (
      seq (setupJob (global_PARAMS e) options' jm jn) (\<lambda>_.
      seq (submit_jobs e ipe jm jn 0 statement_list) (\<lambda>jobs.
      seq (emit (Synchronize (map fst jobs) False)) (\<lambda>_.
      seq (collect_jobs e ie jobs) (\<lambda>_.
      emit DeleteJobTemplate)))))). \<not> is_local_event ev" for options' statement_list
    by (intro seq_events allI setupJob_events submit_jobs_events collect_jobs_not_local)
       (simp_all add: emit_def)
  show ?thesis
    unfolding run_cluster_batch_def
    using body by (auto simp: action_simps split: sum.splits prod.splits)
qed

lemma run_cluster_single_not_local:
  "\<forall>ev \<in> set (fst (run_cluster_single e options jm jn ipe ie)). \<not> is_local_event ev"
proof -
  have inner: "\<forall>ev \<in> set (fst (
         seq (if options ''job_array'' \<noteq> None \<and> options ''job_array'' \<noteq> Some PNone
                 then run_array_job (py_get options ''job_array'' PNone) jp so se
                 else seq (emit (RunJob jp)) (\<lambda>_.
                        collectSingleJobFromCluster e (Job 0) statement so se jp ie)) (\<lambda>_.
            emit DeleteJobTemplate))). \<not> is_local_event ev" for jp so se statement
  proof (rule seq_events)
    show "\<forall>ev \<in> set (fst (if options ''job_array'' \<noteq> None \<and> options ''job_array'' \<noteq> Some PNone
                 then run_array_job (py_get options ''job_array'' PNone) jp so se
                 else seq (emit (RunJob jp)) (\<lambda>_.
                        collectSingleJobFromCluster e (Job 0) statement so se jp ie))).
            \<not> is_local_event ev"
    proof (cases "options ''job_array'' \<noteq> None \<and> options ''job_array'' \<noteq> Some PNone")
      case True
      then show ?thesis using run_array_job_not_local by simp
    next
      case False
      have "\<forall>ev \<in> set (fst (seq (emit (RunJob jp)) (\<lambda>_.
                        collectSingleJobFromCluster e (Job 0) statement so se jp ie))).
            \<not> is_local_event ev"
        by (rule seq_events) (simp_all add: emit_def collect_single_not_local)
      with False show ?thesis by (simp only: if_False)
    qed
  next
    fix u :: unit
    show "\<forall>ev \<in> set (fst (emit DeleteJobTemplate)). \<not> is_local_event ev"
      by (simp add: emit_def)
  qed
  have body: "\<forall>ev \<in> set (fst (
      seq (buildJobScript e 0 ipe statement jm jn)
              (\<lambda>(job_path, stdout_path, stderr_path).
            seq (setupJob (global_PARAMS e) options jm jn) (\<lambda>_.
            seq (if options ''job_array'' \<noteq> None \<and> options ''job_array'' \<noteq> Some PNone
                 then run_array_job (py_get options ''job_array'' PNone) job_path stdout_path
                        stderr_path
                 else seq (emit (RunJob job_path)) (\<lambda>_.
                        collectSingleJobFromCluster e (Job 0) statement stdout_path stderr_path
                          job_path ie)) (\<lambda>_.
            emit DeleteJobTemplate))))). \<not> is_local_event ev" for statement
  proof (rule seq_events)
    show "\<forall>ev \<in> set (fst (buildJobScript e 0 ipe statement jm jn)). \<not> is_local_event ev"
      by (rule buildJobScript_events) simp_all
  next
    fix x :: "string \<times> string \<times> string"
    obtain jp so se where x: "x = (jp, so, se)" by (cases x)
    show "\<forall>ev \<in> set (fst (case x of (job_path, stdout_path, stderr_path) \<Rightarrow>
            seq (setupJob (global_PARAMS e) options jm jn) (\<lambda>_.
            seq (if options ''job_array'' \<noteq> None \<and> options ''job_array'' \<noteq> Some PNone
                 then run_array_job (py_get options ''job_array'' PNone) job_path stdout_path
                        stderr_path
                 else seq (emit (RunJob job_path)) (\<lambda>_.
                        collectSingleJobFromCluster e (Job 0) statement stdout_path stderr_path
                          job_path ie)) (\<lambda>_.
            emit DeleteJobTemplate)))). \<not> is_local_event ev"
      unfolding x prod.case
      by (intro seq_events allI setupJob_events inner) simp_all
  qed
  show ?thesis
    unfolding run_cluster_single_def
    using body by (auto simp: action_simps split: sum.splits)
qed

lemma run_cluster_not_local:
  "\<forall>ev \<in> set (fst (run_cluster e options jm jn ipe ie)). \<not> is_local_event ev"
  unfolding run_cluster_def
  using run_cluster_batch_not_local run_cluster_single_not_local by simp

lemma run_statements_local:
  "\<forall>ev \<in> set (fst (run_statements e ipe ie k sts)). is_local_event ev"
proof (induction sts arbitrary: k)
  case Nil
  show ?case by (simp add: ret_def)
next
  case (Cons st sts)
  show ?case
    using Cons.IH by (auto simp: action_simps split: sum.splits)
qed

lemma run_local_local:
  "\<forall>ev \<in> set (fst (run_local e options ipe ie)). is_local_event ev"
  unfolding run_local_def
  using run_statements_local by (auto simp: action_simps split: sum.splits prod.splits)

lemma seq_lift:
  "seq ([], r) f = (case r of Inl ex \<Rightarrow> ([], Inl ex) | Inr x \<Rightarrow> f x)"
  by (cases r) (simp_all add: seq_def split: prod.splits)

lemma legacy_synonyms_other:
  assumes "legacy_synonyms m = Inr o1"
    and "k \<noteq> ''cluster_options''" "k \<noteq> ''cluster_queue''" "k \<noteq> ''without_cluster''"
  shows "o1 k = m k"
  using assms by (auto simp: legacy_synonyms_def Let_def split: option.splits)

lemma legacy_synonyms_without_cluster:
  assumes "legacy_synonyms m = Inr o1"
  shows "o1 ''without_cluster'' = Some (py_get m ''without_cluster'' PNone)"
  using assms by (auto simp: legacy_synonyms_def Let_def py_get_def split: option.splits)

lemma resolve_job_memory_other:
  assumes "resolve_job_memory P o1 = (ws, Inr (jm, options))" and "k \<noteq> ''cluster_options''"
  shows "options k = o1 k"
  using assms
  by (auto simp: resolve_job_memory_def action_simps
      split: option.splits sum.splits if_splits pyval.splits)

lemma resolve_job_memory_warnings:
  "\<forall>ev \<in> set (fst (resolve_job_memory P o1)). is_warning ev"
  by (auto simp: resolve_job_memory_def action_simps
      split: option.splits sum.splits if_splits pyval.splits)

lemma run_setup_parts:
  assumes "run_setup e = (ws, Inr (options, job_memory, on_cluster, job_name))"
  shows "\<exists>options1. legacy_synonyms (merged_options e) = Inr options1 \<and>
           resolve_job_memory (global_PARAMS e) options1 = (ws, Inr (job_memory, options)) \<and>
           run_on_cluster options (GLOBAL_SESSION e) = Inr on_cluster \<and>
           job_name_of options = Inr job_name"
proof -
  obtain options1 where 1: "legacy_synonyms (merged_options e) = Inr options1"
    using assms by (cases "legacy_synonyms (merged_options e)") (auto simp: run_setup_def action_simps)
  obtain ws' r where 2: "resolve_job_memory (global_PARAMS e) options1 = (ws', r)"
    by (cases "resolve_job_memory (global_PARAMS e) options1")
  from assms 1 2 obtain jm' options' where r: "r = Inr (jm', options')"
    by (cases r) (auto simp: run_setup_def action_simps)
  from assms 1 2 r obtain oc where 3: "run_on_cluster options' (GLOBAL_SESSION e) = Inr oc"
    by (cases "run_on_cluster options' (GLOBAL_SESSION e)") (auto simp: run_setup_def action_simps)
  from assms 1 2 r 3 obtain jn where 4: "job_name_of options' = Inr jn"
    by (cases "job_name_of options'") (auto simp: run_setup_def action_simps)
  from assms 1 2 r 3 4 have "ws' = ws" "options' = options" "jm' = job_memory" "oc = on_cluster"
    "jn = job_name"
    by (simp_all add: run_setup_def action_simps)
  with 1 2 r 3 4 show ?thesis by simp
qed

lemma run_setup_warnings:
  "\<forall>ev \<in> set (fst (run_setup e)). is_warning ev"
proof (cases "legacy_synonyms (merged_options e)")
  case (Inl ex)
  then show ?thesis by (simp add: run_setup_def action_simps)
next
  case (Inr options1)
  obtain ws r where m: "resolve_job_memory (global_PARAMS e) options1 = (ws, r)"
    by (cases "resolve_job_memory (global_PARAMS e) options1")
  have ws: "\<forall>ev \<in> set ws. is_warning ev"
    using resolve_job_memory_warnings [of "global_PARAMS e" options1] m by simp
  have "fst (run_setup e) = ws"
    using Inr m
    by (cases r) (auto simp: run_setup_def action_simps seq_lift split: sum.splits prod.splits)
  with ws show ?thesis by simp
qed

lemma run_on_cluster_truthy:
  assumes "run_on_cluster options session = Inr v" and "options ''without_cluster'' = Some wc"
  shows "truthy v \<longleftrightarrow>
           session \<noteq> None \<and>
           (options ''to_cluster'' = None \<or> truthy (py_get options ''to_cluster'' PNone)) \<and>
           \<not> truthy wc"
  using assms by (auto simp: run_on_cluster_def Let_def split: if_splits)

text \<open>
  Claim C1. For a call of \<^verbatim>\<open>run\<close> that reaches the dispatch (the preparation returns
  the options, the job memory and the job name, after the warnings \<open>ws\<close>): when a session
  exists, the merged options lack \<^verbatim>\<open>to_cluster\<close> or have it true, and
  \<^verbatim>\<open>without_cluster\<close> is not true, the call is the cluster dispatch and causes no event
  of a local process; in every other case the call is the local path and causes no event
  of the scheduler session or of a job script.
\<close>

theorem run_routing:
  assumes "run_setup e = (ws, Inr (options, job_memory, on_cluster, job_name))"
  shows "(GLOBAL_SESSION e \<noteq> None \<and>
          (merged_options e ''to_cluster'' = None \<or>
           truthy (py_get (merged_options e) ''to_cluster'' PNone)) \<and>
          \<not> truthy (py_get (merged_options e) ''without_cluster'' PNone)
          \<longrightarrow> run e = seq (ws, Inr ()) (\<lambda>_. run_cluster e options job_memory job_name
                            (truthy (py_get options ''ignore_pipe_errors'' (PBool False)))
                            (truthy (py_get options ''ignore_errors'' (PBool False))))
              \<and> (\<forall>ev \<in> set (fst (run e)). \<not> is_local_event ev))
       \<and> (\<not> (GLOBAL_SESSION e \<noteq> None \<and>
             (merged_options e ''to_cluster'' = None \<or>
              truthy (py_get (merged_options e) ''to_cluster'' PNone)) \<and>
             \<not> truthy (py_get (merged_options e) ''without_cluster'' PNone))
          \<longrightarrow> run e = seq (ws, Inr ()) (\<lambda>_. run_local e options
                            (truthy (py_get options ''ignore_pipe_errors'' (PBool False)))
                            (truthy (py_get options ''ignore_errors'' (PBool False))))
              \<and> (\<forall>ev \<in> set (fst (run e)). \<not> is_cluster_event ev))"
proof -
  let ?cond = "GLOBAL_SESSION e \<noteq> None \<and>
          (merged_options e ''to_cluster'' = None \<or>
           truthy (py_get (merged_options e) ''to_cluster'' PNone)) \<and>
          \<not> truthy (py_get (merged_options e) ''without_cluster'' PNone)"
  let ?ipe = "truthy (py_get options ''ignore_pipe_errors'' (PBool False))"
  let ?ie = "truthy (py_get options ''ignore_errors'' (PBool False))"
  from run_setup_parts [OF assms] obtain options1 where
    syn: "legacy_synonyms (merged_options e) = Inr options1"
    and mem: "resolve_job_memory (global_PARAMS e) options1 = (ws, Inr (job_memory, options))"
    and roc: "run_on_cluster options (GLOBAL_SESSION e) = Inr on_cluster"
    by blast
  have wc: "options ''without_cluster'' = Some (py_get (merged_options e) ''without_cluster'' PNone)"
    using resolve_job_memory_other [OF mem, of "''without_cluster''"]
      legacy_synonyms_without_cluster [OF syn] by simp
  have tc: "options ''to_cluster'' = merged_options e ''to_cluster''"
    using resolve_job_memory_other [OF mem, of "''to_cluster''"]
      legacy_synonyms_other [OF syn, of "''to_cluster''"] by simp
  have tc': "py_get options ''to_cluster'' PNone = py_get (merged_options e) ''to_cluster'' PNone"
    by (simp add: py_get_def tc)
  have route: "truthy on_cluster \<longleftrightarrow> ?cond"
    using run_on_cluster_truthy [OF roc wc] by (simp only: tc tc')
  have run: "run e = seq (ws, Inr ()) (\<lambda>_. if truthy on_cluster
                then run_cluster e options job_memory job_name ?ipe ?ie
                else run_local e options ?ipe ?ie)"
    by (simp add: run_def assms action_simps Let_def)
  have ws: "\<forall>ev \<in> set ws. is_warning ev"
    using run_setup_warnings [of e] assms by simp
  have no_local: "\<forall>ev \<in> set (fst (seq (ws, Inr ()) (\<lambda>_. run_cluster e options job_memory job_name ?ipe ?ie))).
      \<not> is_local_event ev"
    by (rule seq_events) (use ws run_cluster_not_local in \<open>auto dest: is_warning_not_local\<close>)
  have no_cluster: "\<forall>ev \<in> set (fst (seq (ws, Inr ()) (\<lambda>_. run_local e options ?ipe ?ie))).
      \<not> is_cluster_event ev"
    by (rule seq_events) (use ws run_local_local in \<open>auto simp: is_cluster_event_def\<close>)
  show ?thesis
  proof (intro conjI impI)
    assume c: ?cond
    have t: "truthy on_cluster" unfolding route by (rule c)
    show r: "run e = seq (ws, Inr ()) (\<lambda>_. run_cluster e options job_memory job_name ?ipe ?ie)"
      by (simp add: run t)
    show "\<forall>ev \<in> set (fst (run e)). \<not> is_local_event ev"
      unfolding r by (rule no_local)
  next
    assume c: "\<not> ?cond"
    have t: "\<not> truthy on_cluster" unfolding route by (rule c)
    show r: "run e = seq (ws, Inr ()) (\<lambda>_. run_local e options ?ipe ?ie)"
      by (simp add: run t)
    show "\<forall>ev \<in> set (fst (run e)). \<not> is_cluster_event ev"
      unfolding r by (rule no_cluster)
  qed
qed

text \<open>
  The example task is sent to the cluster; with \<^verbatim>\<open>to_cluster=False\<close> it runs locally.
\<close>

theorem run_routing_witness:
  "filter is_local_event (fst (run example_env)) = []
   \<and> filter is_cluster_event (fst (run local_env)) = []"
proof -
  have "\<not> isl (snd (run_setup example_env))" by code_simp
  then obtain ws options job_memory on_cluster job_name where
    a: "run_setup example_env = (ws, Inr (options, job_memory, on_cluster, job_name))"
    by (cases "run_setup example_env"; cases "snd (run_setup example_env)") auto
  have "\<not> isl (snd (run_setup local_env))" by code_simp
  then obtain ws' options' job_memory' on_cluster' job_name' where
    b: "run_setup local_env = (ws', Inr (options', job_memory', on_cluster', job_name'))"
    by (cases "run_setup local_env"; cases "snd (run_setup local_env)") auto
  have ca: "GLOBAL_SESSION example_env \<noteq> None \<and>
          (merged_options example_env ''to_cluster'' = None \<or>
           truthy (py_get (merged_options example_env) ''to_cluster'' PNone)) \<and>
          \<not> truthy (py_get (merged_options example_env) ''without_cluster'' PNone)"
    by (simp add: example_env_def example_PARAMS_def merged_options_def py_get_def)
  have cb: "\<not> (GLOBAL_SESSION local_env \<noteq> None \<and>
          (merged_options local_env ''to_cluster'' = None \<or>
           truthy (py_get (merged_options local_env) ''to_cluster'' PNone)) \<and>
          \<not> truthy (py_get (merged_options local_env) ''without_cluster'' PNone))"
    by (simp add: local_env_def example_env_def example_PARAMS_def merged_options_def py_get_def)
  from mp [OF conjunct1 [OF run_routing [OF a]] ca] mp [OF conjunct2 [OF run_routing [OF b]] cb]
  show ?thesis by (simp add: filter_empty_conv)
qed

lemma build_statements_options:
  assumes "build_statements keys P options sts = Inr (sl, options')" and "k \<noteq> ''statement''"
  shows "options' k = options k"
  using assms
proof (induction sts arbitrary: options sl)
  case Nil
  then show ?case by simp
next
  case (Cons st sts)
  from Cons.prems(1) obtain ss where
    "build_statements keys P (options(''statement'' \<mapsto> st)) sts = Inr (ss, options')"
    by (auto simp: Let_def split: sum.splits prod.splits)
  from Cons.IH [OF this Cons.prems(2)] Cons.prems(2) show ?case by simp
qed

lemma build_statement_list_options:
  assumes "build_statement_list keys P options = Inr (sl, options')" and "k \<noteq> ''statement''"
  shows "options' k = options k"
  using assms build_statements_options [of keys P options _ sl options' k]
  by (auto simp: build_statement_list_def split: if_splits sum.splits)

lemma run_cluster_dryrun:
  assumes "truthy (py_get options ''dryrun'' (PBool False))"
  shows "run_cluster e options jm jn ipe ie =
           ([], case build_statement_list (dict_keys e) (global_PARAMS e) options of
                  Inl ex \<Rightarrow> Inl ex | Inr r \<Rightarrow> Inr ())"
proof (cases "truthy (py_get options ''statements'' PNone)")
  case True
  show ?thesis
  proof (cases "py_iter (py_get options ''statements'' PNone)")
    case (Inl ex)
    with True show ?thesis
      by (simp add: run_cluster_def run_cluster_batch_def build_statement_list_def action_simps)
  next
    case (Inr sts)
    show ?thesis
    proof (cases "build_statements (dict_keys e) (global_PARAMS e) options sts")
      case (Inl ex)
      with True Inr show ?thesis
        by (simp add: run_cluster_def run_cluster_batch_def build_statement_list_def action_simps)
    next
      case b: (Inr r)
      obtain sl options' where r: "r = (sl, options')" by (cases r)
      from build_statements_options [OF b [unfolded r], of "''dryrun''"]
      have "py_get options' ''dryrun'' (PBool False) = py_get options ''dryrun'' (PBool False)"
        by (simp add: py_get_def)
      with assms True Inr b r show ?thesis
        by (simp add: run_cluster_def run_cluster_batch_def build_statement_list_def action_simps)
    qed
  qed
next
  case False
  with assms show ?thesis
    by (auto simp: run_cluster_def run_cluster_single_def build_statement_list_def action_simps
        split: sum.splits)
qed

lemma run_local_dryrun:
  assumes "truthy (py_get options ''dryrun'' (PBool False))"
  shows "run_local e options ipe ie =
           ([], case build_statement_list (dict_keys e) (global_PARAMS e) options of
                  Inl ex \<Rightarrow> Inl ex | Inr r \<Rightarrow> Inr ())"
proof (cases "build_statement_list (dict_keys e) (global_PARAMS e) options")
  case (Inl ex)
  then show ?thesis by (simp add: run_local_def action_simps)
next
  case b: (Inr r)
  obtain sl options' where r: "r = (sl, options')" by (cases r)
  from build_statement_list_options [OF b [unfolded r], of "''dryrun''"]
  have "py_get options' ''dryrun'' (PBool False) = py_get options ''dryrun'' (PBool False)"
    by (simp add: py_get_def)
  with assms b r show ?thesis
    by (simp add: run_local_def action_simps)
qed

lemma run_setup_option:
  assumes "run_setup e = (ws, Inr (options, job_memory, on_cluster, job_name))"
    and "k \<noteq> ''cluster_options''" "k \<noteq> ''cluster_queue''" "k \<noteq> ''without_cluster''"
  shows "options k = merged_options e k"
proof -
  from run_setup_parts [OF assms(1)] obtain options1 where
    syn: "legacy_synonyms (merged_options e) = Inr options1"
    and mem: "resolve_job_memory (global_PARAMS e) options1 = (ws, Inr (job_memory, options))"
    by blast
  from resolve_job_memory_other [OF mem assms(2)] legacy_synonyms_other [OF syn assms(2,3,4)]
  show ?thesis by simp
qed

text \<open>
  Claim C9. With \<^verbatim>\<open>dryrun\<close> true in the merged options, a call of \<^verbatim>\<open>run\<close> causes no
  event but warnings: no job template, no job script, no submission, no local process,
  on any path. When the call reaches the dispatch, it still builds the statements (all
  statements of \<^verbatim>\<open>statements\<close>, or the single \<^verbatim>\<open>statement\<close>): it raises the error of
  the first statement that cannot be built and returns otherwise.
\<close>

theorem run_dryrun:
  assumes "truthy (py_get (merged_options e) ''dryrun'' (PBool False))"
  shows "(\<forall>ev \<in> set (fst (run e)). is_warning ev)
       \<and> (run_setup e = (ws, Inr (options, job_memory, on_cluster, job_name)) \<longrightarrow>
            run e = (ws, case build_statement_list (dict_keys e) (global_PARAMS e) options of
                           Inl ex \<Rightarrow> Inl ex | Inr r \<Rightarrow> Inr ()))"
proof -
  have dispatch: "run e = (ws', case build_statement_list (dict_keys e) (global_PARAMS e) options' of
                           Inl ex \<Rightarrow> Inl ex | Inr r \<Rightarrow> Inr ())"
    if s: "run_setup e = (ws', Inr (options', jm, oc, jn))" for ws' options' jm oc jn
  proof -
    have "options' ''dryrun'' = merged_options e ''dryrun''"
      by (rule run_setup_option [OF s]) simp_all
    then have d: "truthy (py_get options' ''dryrun'' (PBool False))"
      using assms by (simp add: py_get_def)
    show ?thesis
      by (simp add: run_def s action_simps Let_def run_cluster_dryrun [OF d] run_local_dryrun [OF d])
  qed
  have warnings: "\<forall>ev \<in> set (fst (run e)). is_warning ev"
  proof (cases "run_setup e")
    case (Pair ws' r)
    have ws': "\<forall>ev \<in> set ws'. is_warning ev"
      using run_setup_warnings [of e] Pair by simp
    show ?thesis
    proof (cases r)
      case (Inl ex)
      with Pair ws' show ?thesis by (simp add: run_def action_simps)
    next
      case (Inr x)
      obtain options' jm oc jn where x: "x = (options', jm, oc, jn)" by (cases x)
      from dispatch [OF Pair [unfolded Inr x]] ws' show ?thesis by simp
    qed
  qed
  from warnings dispatch show ?thesis by blast
qed

text \<open>
  A dry run of the example task. The second fact shows a dry run with an undefined key in
  the template: the error of \<^verbatim>\<open>buildStatement\<close> is raised and nothing is started.
\<close>

theorem run_dryrun_witness:
  "filter (\<lambda>ev. \<not> is_warning ev) (fst (run dry_env)) = []
   \<and> (\<exists>ws options job_memory on_cluster job_name.
        run_setup dry_env = (ws, Inr (options, job_memory, on_cluster, job_name)) \<and>
        run dry_env = (ws, case build_statement_list (dict_keys dry_env) (global_PARAMS dry_env) options of
                             Inl ex \<Rightarrow> Inl ex | Inr r \<Rightarrow> Inr ()))"
proof -
  have d: "truthy (py_get (merged_options dry_env) ''dryrun'' (PBool False))"
    by (simp add: dry_env_def example_env_def merged_options_def py_get_def)
  have "\<not> isl (snd (run_setup dry_env))" by code_simp
  then obtain ws options job_memory on_cluster job_name where
    a: "run_setup dry_env = (ws, Inr (options, job_memory, on_cluster, job_name))"
    by (cases "run_setup dry_env"; cases "snd (run_setup dry_env)") auto
  have "filter (\<lambda>ev. \<not> is_warning ev) (fst (run dry_env)) = []"
    using conjunct1 [OF run_dryrun [OF d]] by (simp add: filter_empty_conv)
  with mp [OF conjunct2 [OF run_dryrun [OF d]] a] a
  show ?thesis by blast
qed

lemma dry_run_raises_template_error:
  "run dry_bad_template_env = ([], Inl (KeyError (could_not_find_msg ''nosuch'')))"
  by code_simp

lemma takeWhile_word:
  assumes "\<forall>c \<in> set g. \<not> isspace c" "rest = [] \<or> isspace (hd rest)"
  shows "takeWhile (\<lambda>c. \<not> isspace c) (g @ rest) = g"
proof -
  have "takeWhile (\<lambda>c. \<not> isspace c) rest = []"
    using assms(2) by (cases rest) auto
  with assms(1) show ?thesis by (simp add: takeWhile_append2)
qed

text \<open>The amount is parsed out of the text: what follows \<^verbatim>\<open>-l mem_free=\<close> up to the next whitespace.\<close>

lemma search_mem_free_amount:
  assumes "g \<noteq> []" "\<forall>c \<in> set g. \<not> isspace c" "rest = [] \<or> isspace (hd rest)"
  shows "search_mem_free (''-l mem_free='' @ g @ rest) = Some g"
proof -
  from assms(1,2) have "\<not> isspace (hd g)" by (cases g) simp_all
  with assms(1) have d: "dropWhile isspace (g @ rest) = g @ rest" by (cases g) simp_all
  have "match_mem_free (''-l mem_free='' @ g @ rest) = Some g"
    using assms(1) by (simp add: match_mem_free_def isspace_def [of "CHR ''m''"]
        isspace_def [of "CHR ''=''"] isspace_def [of "CHR '' ''"] d takeWhile_word [OF assms(2,3)])
  then show ?thesis by simp
qed

lemma legacy_synonyms_cluster_options:
  assumes "legacy_synonyms m = Inr o1"
  shows "\<exists>co. m ''cluster_options'' = Some co \<and>
           o1 ''cluster_options'' = Some (py_get m ''job_options'' co)"
  using assms by (auto simp: legacy_synonyms_def Let_def split: option.splits)

lemma run_memory_failure:
  assumes "legacy_synonyms (merged_options e) = Inr options1"
    and "resolve_job_memory (global_PARAMS e) options1 = (ws, Inl ex)"
  shows "run e = (ws, Inl ex)"
  using assms by (simp add: run_def run_setup_def action_simps seq_lift)

text \<open>
  Claim C6. Let \<open>options1\<close> be the merged options of a call with the legacy synonyms.
  \<^item> An explicit \<^verbatim>\<open>job_memory\<close> in the options is the job memory, whatever
    \<^verbatim>\<open>cluster_options\<close> says.
  \<^item> Otherwise, when the string \<^verbatim>\<open>cluster_options\<close> contains \<^verbatim>\<open>mem_free\<close> and the
    parameter \<^verbatim>\<open>cluster_memory_resource\<close> is set to a true value, the deprecation
    warning is given and the job memory is the amount that the pattern
    \<^verbatim>\<open>-l mem_free=<value>\<close> finds in the string.
  \<^item> Otherwise the job memory is the global \<^verbatim>\<open>cluster_memory_default\<close> (\<^verbatim>\<open>2G\<close> when
    that is not set).
  \<^item> When the marker is there and the pattern is not found, \<^verbatim>\<open>run\<close> raises
    \<^verbatim>\<open>ValueError\<close>; the only event before it is the warning, so no job is started.
  \<^item> The job memory so resolved is the one that the call is dispatched with.
\<close>

theorem job_memory_precedence:
  assumes "legacy_synonyms (merged_options e) = Inr options1"
  shows "(options1 ''job_memory'' = Some m \<longrightarrow>
            resolve_job_memory (global_PARAMS e) options1 = ([], Inr (m, options1)))
       \<and> (options1 ''job_memory'' = None \<and> options1 ''cluster_options'' = Some (PStr s) \<and>
          contains ''mem_free'' s \<and>
          truthy (py_get (global_PARAMS e) ''cluster_memory_resource'' (PBool False)) \<and>
          search_mem_free s = Some g \<longrightarrow>
            resolve_job_memory (global_PARAMS e) options1 =
              ([Warn deprecation_warning],
               Inr (PStr g, options1(''cluster_options'' \<mapsto> PStr (remove_legacy 0 s)))))
       \<and> (options1 ''job_memory'' = None \<and> options1 ''cluster_options'' = Some (PStr s) \<and>
          \<not> (contains ''mem_free'' s \<and>
             truthy (py_get (global_PARAMS e) ''cluster_memory_resource'' (PBool False))) \<longrightarrow>
            resolve_job_memory (global_PARAMS e) options1 =
              ([], Inr (py_get (global_PARAMS e) ''cluster_memory_default'' (PStr ''2G''), options1)))
       \<and> (options1 ''job_memory'' = None \<and> options1 ''cluster_options'' = Some (PStr s) \<and>
          contains ''mem_free'' s \<and>
          truthy (py_get (global_PARAMS e) ''cluster_memory_resource'' (PBool False)) \<and>
          search_mem_free s = None \<longrightarrow>
            run e = ([Warn deprecation_warning],
                     Inl (ValueError (''expecting mem_free in '' @ [CHR 0x27] @ s @ [CHR 0x27]))))
       \<and> (run_setup e = (ws, Inr (options, job_memory, on_cluster, job_name)) \<longrightarrow>
            resolve_job_memory (global_PARAMS e) options1 = (ws, Inr (job_memory, options)))"
proof (intro conjI impI, goal_cases)
  case 1
  then show ?case by (simp add: resolve_job_memory_def action_simps)
next
  case 2
  then show ?case by (simp add: resolve_job_memory_def action_simps)
next
  case 3
  then show ?case by (auto simp: resolve_job_memory_def action_simps)
next
  case 4
  then have "resolve_job_memory (global_PARAMS e) options1 =
      ([Warn deprecation_warning],
       Inl (ValueError (''expecting mem_free in '' @ [CHR 0x27] @ s @ [CHR 0x27])))"
    by (simp add: resolve_job_memory_def action_simps)
  then show ?case by (rule run_memory_failure [OF assms])
next
  case 5
  from run_setup_parts [OF 5] assms show ?case by auto
qed

lemma legacy_synonyms_values:
  assumes "legacy_synonyms m = Inr o1" and "m ''cluster_options'' = Some co"
  shows "o1 ''cluster_options'' = Some (py_get m ''job_options'' co)"
    and "o1 ''job_memory'' = m ''job_memory''"
  using assms legacy_synonyms_cluster_options [OF assms(1)]
    legacy_synonyms_other [OF assms(1), of "''job_memory''"]
  by auto

lemmas example_env_defs = example_env_def example_PARAMS_def merged_options_def py_get_def
  explicit_memory_env_def legacy_memory_env_def malformed_memory_env_def

text \<open>
  An explicit \<^verbatim>\<open>job_memory="8G"\<close>; the legacy request \<^verbatim>\<open>-l mem_free=16G\<close>; the default
  of 4G; the request \<^verbatim>\<open>-l mem_free 4G\<close>, which the pattern does not match; and the
  dispatch of the example task.
\<close>

theorem job_memory_precedence_witness:
  "(\<exists>o1. legacy_synonyms (merged_options explicit_memory_env) = Inr o1 \<and>
          resolve_job_memory (global_PARAMS explicit_memory_env) o1 = ([], Inr (PStr ''8G'', o1)))
   \<and> (\<exists>o1. legacy_synonyms (merged_options legacy_memory_env) = Inr o1 \<and>
          resolve_job_memory (global_PARAMS legacy_memory_env) o1 =
            ([Warn deprecation_warning],
             Inr (PStr ''16G'', o1(''cluster_options'' \<mapsto> PStr (remove_legacy 0 ''-l mem_free=16G'')))))
   \<and> (\<exists>o1. legacy_synonyms (merged_options example_env) = Inr o1 \<and>
          resolve_job_memory (global_PARAMS example_env) o1 = ([], Inr (PStr ''4G'', o1)))
   \<and> run malformed_memory_env =
        ([Warn deprecation_warning],
         Inl (ValueError (''expecting mem_free in '' @ [CHR 0x27] @ ''-l mem_free 4G'' @ [CHR 0x27])))
   \<and> (\<exists>o1 ws options job_memory on_cluster job_name.
          legacy_synonyms (merged_options example_env) = Inr o1 \<and>
          run_setup example_env = (ws, Inr (options, job_memory, on_cluster, job_name)) \<and>
          resolve_job_memory (global_PARAMS example_env) o1 = (ws, Inr (job_memory, options)))"
proof -
  have resource: "\<And>E. global_PARAMS E = example_PARAMS \<Longrightarrow>
      truthy (py_get (global_PARAMS E) ''cluster_memory_resource'' (PBool False))"
    by (simp add: example_PARAMS_def py_get_def)
  have "\<not> isl (legacy_synonyms (merged_options explicit_memory_env))" by code_simp
  then obtain a where a: "legacy_synonyms (merged_options explicit_memory_env) = Inr a"
    by (cases "legacy_synonyms (merged_options explicit_memory_env)") auto
  have a_co: "merged_options explicit_memory_env ''cluster_options'' = Some (PStr [])"
    by (simp add: example_env_defs)
  have a_mem: "a ''job_memory'' = Some (PStr ''8G'')"
    unfolding legacy_synonyms_values(2) [OF a a_co] by (simp add: example_env_defs)
  note A = mp [OF conjunct1 [OF job_memory_precedence [OF a]] a_mem]
  have "\<not> isl (legacy_synonyms (merged_options legacy_memory_env))" by code_simp
  then obtain b where b: "legacy_synonyms (merged_options legacy_memory_env) = Inr b"
    by (cases "legacy_synonyms (merged_options legacy_memory_env)") auto
  have b_co: "merged_options legacy_memory_env ''cluster_options'' = Some (PStr [])"
    by (simp add: example_env_defs)
  have b_mem: "b ''job_memory'' = None"
    unfolding legacy_synonyms_values(2) [OF b b_co] by (simp add: example_env_defs)
  have b_opts: "b ''cluster_options'' = Some (PStr ''-l mem_free=16G'')"
    unfolding legacy_synonyms_values(1) [OF b b_co] by (simp add: example_env_defs)
  have b_marker: "contains ''mem_free'' ''-l mem_free=16G''" by simp
  have b_parse: "search_mem_free ''-l mem_free=16G'' = Some ''16G''"
    using search_mem_free_amount [of "''16G''" "[]"] by (simp add: isspace_def)
  have b_res: "truthy (py_get (global_PARAMS legacy_memory_env) ''cluster_memory_resource'' (PBool False))"
    by (rule resource) (simp add: example_env_defs)
  note B = mp [OF conjunct1 [OF conjunct2 [OF job_memory_precedence [OF b]]],
      OF conjI [OF b_mem conjI [OF b_opts conjI [OF b_marker conjI [OF b_res b_parse]]]]]
  have "\<not> isl (legacy_synonyms (merged_options example_env))" by code_simp
  then obtain c where c: "legacy_synonyms (merged_options example_env) = Inr c"
    by (cases "legacy_synonyms (merged_options example_env)") auto
  have c_co: "merged_options example_env ''cluster_options'' = Some (PStr [])"
    by (simp add: example_env_defs)
  have c_mem: "c ''job_memory'' = None"
    unfolding legacy_synonyms_values(2) [OF c c_co] by (simp add: example_env_defs)
  have c_opts: "c ''cluster_options'' = Some (PStr [])"
    unfolding legacy_synonyms_values(1) [OF c c_co] by (simp add: example_env_defs)
  have c_no: "\<not> (contains ''mem_free'' [] \<and>
      truthy (py_get (global_PARAMS example_env) ''cluster_memory_resource'' (PBool False)))"
    by simp
  have c_default: "py_get (global_PARAMS example_env) ''cluster_memory_default'' (PStr ''2G'') = PStr ''4G''"
    by (simp add: example_env_defs)
  note C = mp [OF conjunct1 [OF conjunct2 [OF conjunct2 [OF job_memory_precedence [OF c]]]],
      OF conjI [OF c_mem conjI [OF c_opts c_no]], unfolded c_default]
  have "\<not> isl (legacy_synonyms (merged_options malformed_memory_env))" by code_simp
  then obtain d where d: "legacy_synonyms (merged_options malformed_memory_env) = Inr d"
    by (cases "legacy_synonyms (merged_options malformed_memory_env)") auto
  have d_co: "merged_options malformed_memory_env ''cluster_options'' = Some (PStr [])"
    by (simp add: example_env_defs)
  have d_mem: "d ''job_memory'' = None"
    unfolding legacy_synonyms_values(2) [OF d d_co] by (simp add: example_env_defs)
  have d_opts: "d ''cluster_options'' = Some (PStr ''-l mem_free 4G'')"
    unfolding legacy_synonyms_values(1) [OF d d_co] by (simp add: example_env_defs)
  have d_marker: "contains ''mem_free'' ''-l mem_free 4G''" by simp
  have d_parse: "search_mem_free ''-l mem_free 4G'' = None"
    by (simp add: match_mem_free_def isspace_def)
  have d_res: "truthy (py_get (global_PARAMS malformed_memory_env) ''cluster_memory_resource'' (PBool False))"
    by (rule resource) (simp add: example_env_defs)
  note D = mp [OF conjunct1 [OF conjunct2 [OF conjunct2 [OF conjunct2 [OF job_memory_precedence [OF d]]]]],
      OF conjI [OF d_mem conjI [OF d_opts conjI [OF d_marker conjI [OF d_res d_parse]]]]]
  have "\<not> isl (snd (run_setup example_env))" by code_simp
  then obtain ws options job_memory on_cluster job_name where
    s: "run_setup example_env = (ws, Inr (options, job_memory, on_cluster, job_name))"
    by (cases "run_setup example_env"; cases "snd (run_setup example_env)") auto
  note E = mp [OF conjunct2 [OF conjunct2 [OF conjunct2 [OF conjunct2 [OF job_memory_precedence [OF c]]]]] s]
  from a A b B c C D s E show ?thesis by blast
qed

end
